theory Spec2Isabelle
  imports Complex_Main "HOL-Library.AList"
begin

section \<open>Mesh analysis of a resistive circuit (\<^verbatim>\<open>main.py\<close>)\<close>

text \<open>
  The script builds the resistance matrix and the source vector of a planar circuit from
  the answers typed at its prompts, solves \<open>R \<cdot> I = V\<close> for the mesh currents with
  \<^verbatim>\<open>numpy.linalg.solve\<close> and derives, per resistor, the current through it and the
  power it dissipates.

  Conventions of the embedding:
  \<^item> Python floats and numpy's \<^verbatim>\<open>float64\<close> are the reals of HOL: arithmetic is exact,
    there is no rounding, no infinity and no NaN.
  \<^item> A Python \<^verbatim>\<open>dict\<close> is an association list in insertion order; storing under a key
    is \<^const>\<open>AList.update\<close> (an existing key keeps its place, a new key goes last).
  \<^item> The answers typed at the prompts are parameters, already parsed: the paths on which
    \<^verbatim>\<open>int(input(...))\<close> or \<^verbatim>\<open>float(input(...))\<close> raise \<^verbatim>\<open>ValueError\<close> are outside the model.
  \<^item> An exception is a value: indexing returns a sum type, \<open>Inl\<close> carrying the exception.
\<close>

subsection \<open>Decimal rendering of integers, as in f-strings and in numpy's messages\<close>

definition digito :: "nat \<Rightarrow> char" where
  "digito d = ''0123456789'' ! d"

function str_nat :: "nat \<Rightarrow> string" where
  "str_nat n = (if n < 10 then [digito n] else str_nat (n div 10) @ [digito (n mod 10)])"
  by pat_completeness auto
termination
  by (relation "measure id") auto

declare str_nat.simps [simp del]

definition str_int :: "int \<Rightarrow> string" where
  "str_int i = (if i < 0 then CHR ''-'' # str_nat (nat (- i)) else str_nat (nat i))"

subsection \<open>The registry of resistors and the component results\<close>

text \<open>
  An entry of \<^verbatim>\<open>resistencias\<close> is \<^verbatim>\<open>{'valor': r, 'malla': i}\<close> (a resistor of one mesh) or
  \<^verbatim>\<open>{'valor': r, 'mallas': (i, j)}\<close> (a resistor shared by two meshes); \<^verbatim>\<open>main\<close> builds no
  other shape. The mesh indices are Python integers.
\<close>

datatype topologia = Malla int | Mallas int int

record info =
  valor :: real
  topologia :: topologia

text \<open>
  What indexing a numpy array of floats by a Python integer raises. numpy first converts
  the index to a C \<^verbatim>\<open>long\<close> (64 bits): an index that fits and is out of bounds raises
  \<^verbatim>\<open>IndexError\<close> with the index and the size in its message; an index that does not fit
  raises another exception (\<^verbatim>\<open>OverflowError\<close>, or an \<^verbatim>\<open>IndexError\<close> of another text), of
  which the model keeps the index and not the message.
\<close>

datatype excepcion = IndexError int nat | ErrorDeConversion int

fun str_excepcion :: "excepcion \<Rightarrow> string option" where
  "str_excepcion (IndexError i n) =
     Some (''index '' @ str_int i @ '' is out of bounds for axis 0 with size '' @ str_nat n)"
| "str_excepcion (ErrorDeConversion i) = None"

text \<open>
  A cell of a result is a number or a string: \<^verbatim>\<open>calcular_potencia\<close> stores \<^verbatim>\<open>'ERROR'\<close> and
  \<^verbatim>\<open>f'Error: {e}'\<close> where the computation of a resistor raised. \<open>TextoError e\<close> is the
  string \<^verbatim>\<open>f'Error: {e}'\<close>; \<open>str_celda\<close> gives the characters of a string cell, as far
  as the message of the exception is modelled.
\<close>

datatype celda = Numero real | Texto string | TextoError excepcion

fun str_celda :: "celda \<Rightarrow> string option" where
  "str_celda (Numero x) = None"
| "str_celda (Texto s) = Some s"
| "str_celda (TextoError e) = map_option (\<lambda>s. ''Error: '' @ s) (str_excepcion e)"

record resultado =
  R :: real
  Corriente :: celda
  Potencia :: celda

text \<open>
  \<^verbatim>\<open>corrientes_malla[i]\<close> on a one-dimensional numpy array: an index from \<open>-n\<close> to \<open>-1\<close>
  counts from the end, an index outside \<open>-n .. n-1\<close> raises. (An array has fewer than
  \<open>2\<^sup>6\<^sup>3\<close> elements, so an index within its bounds fits a C \<^verbatim>\<open>long\<close>.)
\<close>

definition cabe_en_long :: "int \<Rightarrow> bool" where
  "cabe_en_long i = (- (2 ^ 63) \<le> i \<and> i < 2 ^ 63)"

definition indexar :: "real list \<Rightarrow> int \<Rightarrow> excepcion + real" where
  "indexar xs i =
     (let n = int (length xs); k = (if i < 0 then i + n else i)
      in if 0 \<le> k \<and> k < n then Inr (xs ! nat k)
         else if cabe_en_long i then Inl (IndexError i (length xs))
         else Inl (ErrorDeConversion i))"

text \<open>Lines 16 to 28: the current through the resistor, a mesh current or a difference of two.\<close>

fun corriente_resistor :: "topologia \<Rightarrow> real list \<Rightarrow> excepcion + real" where
  "corriente_resistor (Malla i) corrientes_malla = indexar corrientes_malla i"
| "corriente_resistor (Mallas i j) corrientes_malla =
     (case indexar corrientes_malla i of
        Inl e \<Rightarrow> Inl e
      | Inr a \<Rightarrow> (case indexar corrientes_malla j of
                   Inl e \<Rightarrow> Inl e
                 | Inr b \<Rightarrow> Inr (a - b)))"

text \<open>Lines 13 to 41: the body of the loop, the \<^verbatim>\<open>try\<close> and its \<^verbatim>\<open>except\<close>.\<close>

definition resultado_de :: "info \<Rightarrow> real list \<Rightarrow> resultado" where
  "resultado_de dato corrientes_malla =
     (let r = valor dato
      in case corriente_resistor (topologia dato) corrientes_malla of
           Inr corriente \<Rightarrow>
             (let potencia = corriente\<^sup>2 * r
              in \<lparr>R = r, Corriente = Numero \<bar>corriente\<bar>, Potencia = Numero potencia\<rparr>)
         | Inl e \<Rightarrow>
             \<lparr>R = r, Corriente = Texto ''ERROR'', Potencia = TextoError e\<rparr>)"

definition calcular_potencia ::
  "(string \<times> info) list \<Rightarrow> real list \<Rightarrow> (string \<times> resultado) list" where
  "calcular_potencia resistencias corrientes_malla =
     fold (\<lambda>(nombre, dato) resultados_resistencia.
             AList.update nombre (resultado_de dato corrientes_malla) resultados_resistencia)
          resistencias []"

text \<open>
  Line 167: the sum of the \<^verbatim>\<open>'Potencia (W)'\<close> cells that are numbers
  (\<^verbatim>\<open>isinstance(..., (int, float))\<close>); a cell holding a string is passed over.
\<close>

definition potencia_total :: "(string \<times> resultado) list \<Rightarrow> real" where
  "potencia_total resultados_potencia =
     sum_list (concat (map (\<lambda>(nombre, d). case Potencia d of
                                              Numero p \<Rightarrow> [p] | Texto s \<Rightarrow> [] | TextoError e \<Rightarrow> [])
                           resultados_potencia))"

subsection \<open>Building the resistance matrix and the source vector\<close>

text \<open>
  The state of \<^verbatim>\<open>main\<close> while it reads the circuit: the numpy arrays \<^verbatim>\<open>matriz_R\<close> (a list
  of rows) and \<^verbatim>\<open>vector_V\<close>, and the registry.
\<close>

record estado =
  matriz_R :: "real list list"
  vector_V :: "real list"
  resistencias :: "(string \<times> info) list"

text \<open>\<^verbatim>\<open>matriz_R[i, j] = v\<close>; the loops of \<^verbatim>\<open>main\<close> only produce indices below \<open>N\<close>.\<close>

definition mat_set :: "real list list \<Rightarrow> nat \<Rightarrow> nat \<Rightarrow> real \<Rightarrow> real list list" where
  "mat_set m i j v = m[i := (m ! i)[j := v]]"

text \<open>The keys \<^verbatim>\<open>f'R{i+1}_p{j+1}'\<close> and \<^verbatim>\<open>f'R_c{i+1}-{j+1}'\<close>.\<close>

definition nombre_propia :: "nat \<Rightarrow> nat \<Rightarrow> string" where
  "nombre_propia i j = ''R'' @ str_nat (i + 1) @ ''_p'' @ str_nat (j + 1)"

definition nombre_compartida :: "nat \<Rightarrow> nat \<Rightarrow> string" where
  "nombre_compartida i j = ''R_c'' @ str_nat (i + 1) @ ''-'' @ str_nat (j + 1)"

text \<open>Lines 66 to 68: \<^verbatim>\<open>np.zeros((N, N))\<close>, \<^verbatim>\<open>np.zeros(N)\<close> and the empty registry.\<close>

definition estado_inicial :: "nat \<Rightarrow> estado" where
  "estado_inicial N =
     \<lparr>matriz_R = replicate N (replicate N 0), vector_V = replicate N 0, resistencias = []\<rparr>"

text \<open>
  Lines 83 to 88, the loop over the resistors of mesh \<open>i\<close> alone: the argument list holds
  the values typed for the resistors \<open>j, j + 1, \<dots>\<close> still to be read; the pair is
  \<^verbatim>\<open>suma_r_propias\<close> and the registry.
\<close>

fun bucle_propias ::
  "nat \<Rightarrow> nat \<Rightarrow> real list \<Rightarrow> real \<times> (string \<times> info) list \<Rightarrow> real \<times> (string \<times> info) list" where
  "bucle_propias i j [] (suma_r_propias, reg) = (suma_r_propias, reg)"
| "bucle_propias i j (r_val # resto) (suma_r_propias, reg) =
     bucle_propias i (Suc j) resto
       (suma_r_propias + r_val,
        AList.update (nombre_propia i j) \<lparr>valor = r_val, topologia = Malla (int i)\<rparr> reg)"

text \<open>
  Lines 73 to 90, one turn of the first loop: \<open>fuentes i\<close> is the sum of sources typed
  for mesh \<open>i\<close>, \<open>propias i\<close> the values typed for its own resistors.
\<close>

definition paso_malla :: "(nat \<Rightarrow> real) \<Rightarrow> (nat \<Rightarrow> real list) \<Rightarrow> nat \<Rightarrow> estado \<Rightarrow> estado" where
  "paso_malla fuentes propias i st =
     (let v = (vector_V st)[i := fuentes i];
          (suma_r_propias, reg) = bucle_propias i 0 (propias i) (0, resistencias st)
      in \<lparr>matriz_R = mat_set (matriz_R st) i i suma_r_propias, vector_V = v,
          resistencias = reg\<rparr>)"

text \<open>Lines 101 to 109, the body of the second loop for the pair \<open>(i, j)\<close>.\<close>

definition paso_compartida :: "nat \<Rightarrow> nat \<Rightarrow> real \<Rightarrow> estado \<Rightarrow> estado" where
  "paso_compartida i j r_comp st =
     (if r_comp > 0 then
        (let m1 = mat_set (matriz_R st) i i (matriz_R st ! i ! i + r_comp);
             m2 = mat_set m1 j j (m1 ! j ! j + r_comp);
             m3 = mat_set m2 i j (- r_comp);
             m4 = mat_set m3 j i (- r_comp)
         in st\<lparr>matriz_R := m4,
               resistencias :=
                 AList.update (nombre_compartida i j)
                   \<lparr>valor = r_comp, topologia = Mallas (int i) (int j)\<rparr> (resistencias st)\<rparr>)
      else st)"

text \<open>
  Lines 66 to 113: both loops. \<open>compartidas i j\<close> is the value typed at the prompt for
  the resistor between mesh \<open>i\<close> and mesh \<open>j\<close>, asked once for each \<open>i < j\<close>.
\<close>

definition construir ::
  "nat \<Rightarrow> (nat \<Rightarrow> real) \<Rightarrow> (nat \<Rightarrow> real list) \<Rightarrow> (nat \<Rightarrow> nat \<Rightarrow> real) \<Rightarrow> estado" where
  "construir N fuentes propias compartidas =
     fold (\<lambda>i st. fold (\<lambda>j. paso_compartida i j (compartidas i j)) [Suc i..<N] st) [0..<N]
       (fold (paso_malla fuentes propias) [0..<N] (estado_inicial N))"

subsection \<open>The linear solver\<close>

text \<open>
  \<^verbatim>\<open>numpy.linalg.solve\<close> is a library routine outside the repository. The solver below is
  elimination with partial pivoting on exact reals, as LAPACK's \<^verbatim>\<open>gesv\<close> performs it on
  floats: in each column the row whose entry is largest in absolute value (the first such)
  is swapped to the top, a zero pivot is the singular case, the rows below are reduced
  and the unknowns follow by back substitution.
\<close>

datatype solve_error = SingularSystemError | DimensionMismatchError

fun producto :: "real list \<Rightarrow> real list \<Rightarrow> real" where
  "producto (x # xs) (y # ys) = x * y + producto xs ys"
| "producto _ _ = 0"

fun cabeza :: "real list \<times> real \<Rightarrow> real" where
  "cabeza ([], b) = 0"
| "cabeza (a # _, b) = a"

fun indice_pivote :: "real list \<Rightarrow> nat" where
  "indice_pivote [] = 0"
| "indice_pivote (x # xs) =
     (let k = indice_pivote xs in if xs \<noteq> [] \<and> \<bar>x\<bar> < \<bar>xs ! k\<bar> then Suc k else 0)"

fun eliminar :: "real \<Rightarrow> real list \<Rightarrow> real \<Rightarrow> real list \<times> real \<Rightarrow> real list \<times> real" where
  "eliminar a as bp ([], bc) = ([], bc)"
| "eliminar a as bp (c # cs, bc) = (map2 (\<lambda>x y. x - c / a * y) cs as, bc - c / a * bp)"

definition intercambiar :: "'a list \<Rightarrow> nat \<Rightarrow> 'a list" where
  "intercambiar xs k = xs[0 := xs ! k, k := xs ! 0]"

function gauss :: "(real list \<times> real) list \<Rightarrow> solve_error + real list" where
  "gauss [] = Inr []"
| "gauss (f # fs) =
     (let filas = f # fs;
          k = indice_pivote (map cabeza filas);
          permutadas = intercambiar filas k
      in case permutadas of
           [] \<Rightarrow> Inl DimensionMismatchError
         | ([], bp) # resto \<Rightarrow> Inl DimensionMismatchError
         | (a # as, bp) # resto \<Rightarrow>
             if a = 0 then Inl SingularSystemError
             else (case gauss (map (eliminar a as bp) resto) of
                     Inl e \<Rightarrow> Inl e
                   | Inr xs \<Rightarrow> Inr ((bp - producto as xs) / a # xs)))"
  by pat_completeness auto
termination
proof (relation "measure length")
  show "wf (measure length)" by simp
next
  fix f :: "real list \<times> real" and fs filas k permutadas fila resto
  assume "filas = f # fs" and "permutadas = intercambiar filas k"
    and "permutadas = fila # resto"
  then have "length (fila # resto) = length (f # fs)"
    by (simp only: intercambiar_def length_list_update)
  then show "(map (eliminar a as bp) resto, f # fs) \<in> measure length" for a as bp
    by simp
qed

declare gauss.simps(2) [simp del]

text \<open>
  Modelled from the spec: \<^verbatim>\<open>solve(matrix, vector)\<close> of section 4.3, which stands for
  \<^verbatim>\<open>numpy.linalg.solve\<close>: a direct dense solve that fails with \<open>SingularSystemError\<close> on a
  singular matrix and with \<open>DimensionMismatchError\<close> on mismatched dimensions.
\<close>

definition solve :: "real list list \<Rightarrow> real list \<Rightarrow> solve_error + real list" where
  "solve a b =
     (if list_all (\<lambda>fila. length fila = length a) a \<and> length b = length a
      then gauss (zip a b) else Inl DimensionMismatchError)"

subsection \<open>The whole run\<close>

datatype error = MallasNoPositivas | SistemaIndeterminado | ErrorInesperado

record informe =
  corrientes :: "real list"
  componentes :: "(string \<times> resultado) list"
  total :: real

text \<open>
  Line 160 formats every \<^verbatim>\<open>'Corriente (A)'\<close> cell with \<^verbatim>\<open>:.4f\<close>, which raises \<^verbatim>\<open>ValueError\<close>
  on a string; line 177 catches it.
\<close>

definition celda_texto :: "celda \<Rightarrow> bool" where
  "celda_texto c = (case c of Numero x \<Rightarrow> False | Texto s \<Rightarrow> True | TextoError e \<Rightarrow> True)"

definition main ::
  "int \<Rightarrow> (nat \<Rightarrow> real) \<Rightarrow> (nat \<Rightarrow> real list) \<Rightarrow> (nat \<Rightarrow> nat \<Rightarrow> real) \<Rightarrow> error + informe" where
  "main N fuentes propias compartidas =
     (if N \<le> 0 then Inl MallasNoPositivas
      else
        (let st = construir (nat N) fuentes propias compartidas
         in case solve (matriz_R st) (vector_V st) of
              Inl SingularSystemError \<Rightarrow> Inl SistemaIndeterminado
            | Inl DimensionMismatchError \<Rightarrow> Inl ErrorInesperado
            | Inr corrientes_malla \<Rightarrow>
                (let resultados_potencia = calcular_potencia (resistencias st) corrientes_malla
                 in if list_ex (\<lambda>(nombre, datos). celda_texto (Corriente datos)
                                  \<or> celda_texto (Potencia datos)) resultados_potencia
                    then Inl ErrorInesperado
                    else Inr \<lparr>corrientes = corrientes_malla,
                              componentes = resultados_potencia,
                              total = potencia_total resultados_potencia\<rparr>)))"

subsection \<open>Notions of the specification\<close>

text \<open>
  The specification's reading of a resistor: its mesh indices are in range when they lie
  in \<open>0 .. N-1\<close>, and its raw current is the mesh current of its mesh, or the difference
  of the mesh currents of its two meshes.
\<close>

fun en_rango :: "topologia \<Rightarrow> nat \<Rightarrow> bool" where
  "en_rango (Malla i) n = (0 \<le> i \<and> i < int n)"
| "en_rango (Mallas i j) n = (0 \<le> i \<and> i < int n \<and> 0 \<le> j \<and> j < int n)"

fun corriente_cruda :: "topologia \<Rightarrow> real list \<Rightarrow> real" where
  "corriente_cruda (Malla i) I = I ! nat i"
| "corriente_cruda (Mallas i j) I = I ! nat i - I ! nat j"

text \<open>The indices a numpy array of length \<open>n\<close> accepts, and the indices a resistor reads, in order.\<close>

definition indice_valido :: "nat \<Rightarrow> int \<Rightarrow> bool" where
  "indice_valido n i = (- int n \<le> i \<and> i < int n)"

fun indices :: "topologia \<Rightarrow> int list" where
  "indices (Malla i) = [i]"
| "indices (Mallas i j) = [i, j]"

text \<open>
  The element an accepted index denotes, a negative index counting from the end of the
  array, and the raw current of a resistor read in this way.
\<close>

definition elemento :: "real list \<Rightarrow> int \<Rightarrow> real" where
  "elemento I i = (if i < 0 then I ! nat (i + int (length I)) else I ! nat i)"

fun corriente_numpy :: "topologia \<Rightarrow> real list \<Rightarrow> real" where
  "corriente_numpy (Malla i) I = elemento I i"
| "corriente_numpy (Mallas i j) I = elemento I i - elemento I j"

text \<open>The exception an index out of bounds raises.\<close>

definition excepcion_de :: "nat \<Rightarrow> int \<Rightarrow> excepcion" where
  "excepcion_de n k = (if cabe_en_long k then IndexError k n else ErrorDeConversion k)"

text \<open>The entry the \<^verbatim>\<open>except\<close> branch stores: the error marker with its diagnostic message.\<close>

definition marcador_error :: "real \<Rightarrow> excepcion \<Rightarrow> resultado" where
  "marcador_error r e =
     \<lparr>R = r, Corriente = Texto ''ERROR'', Potencia = TextoError e\<rparr>"

text \<open>An entry is in error state when its power cell is not a number; otherwise it has a power.\<close>

definition en_error :: "resultado \<Rightarrow> bool" where
  "en_error d = celda_texto (Potencia d)"

definition potencia_de :: "resultado \<Rightarrow> real" where
  "potencia_de d = (case Potencia d of Numero p \<Rightarrow> p | Texto s \<Rightarrow> 0 | TextoError e \<Rightarrow> 0)"

text \<open>
  The matrix has \<open>N\<close> rows of \<open>N\<close> entries, and it is symmetric within them.
\<close>

definition cuadrada :: "nat \<Rightarrow> real list list \<Rightarrow> bool" where
  "cuadrada N m = (length m = N \<and> list_all (\<lambda>fila. length fila = N) m)"

definition simetrica :: "nat \<Rightarrow> real list list \<Rightarrow> bool" where
  "simetrica N m = (\<forall>i<N. \<forall>j<N. m ! i ! j = m ! j ! i)"

text \<open>
  The pairs of meshes in the order in which the second loop of \<^verbatim>\<open>main\<close> asks for their
  shared resistor, and the part of a typed value that enters the matrix: the value when
  it is positive, nothing otherwise.
\<close>

definition pares :: "nat \<Rightarrow> (nat \<times> nat) list" where
  "pares N = concat (map (\<lambda>i. map (Pair i) [Suc i..<N]) [0..<N])"

definition positiva :: "real \<Rightarrow> real" where
  "positiva r = (if 0 < r then r else 0)"

definition inv_sim :: "nat \<Rightarrow> estado \<Rightarrow> bool" where
  "inv_sim N st = (cuadrada N (matriz_R st) \<and> simetrica N (matriz_R st))"

text \<open>
  The states of \<^verbatim>\<open>main\<close> between the contributions to the matrix: after the first \<open>k\<close>
  turns of the first loop (each sets one diagonal entry to the sum of the resistors of its
  mesh), and after the first \<open>k\<close> turns of the second loop (each adds one shared resistor).
\<close>

definition tras_mallas :: "nat \<Rightarrow> (nat \<Rightarrow> real) \<Rightarrow> (nat \<Rightarrow> real list) \<Rightarrow> nat \<Rightarrow> estado" where
  "tras_mallas N fuentes propias k = fold (paso_malla fuentes propias) [0..<k] (estado_inicial N)"

definition tras_pares ::
  "nat \<Rightarrow> (nat \<Rightarrow> real) \<Rightarrow> (nat \<Rightarrow> real list) \<Rightarrow> (nat \<Rightarrow> nat \<Rightarrow> real) \<Rightarrow> nat \<Rightarrow> estado" where
  "tras_pares N fuentes propias compartidas k =
     fold (\<lambda>(i, j). paso_compartida i j (compartidas i j)) (take k (pares N))
       (tras_mallas N fuentes propias N)"

text \<open>
  What the two loops leave in the registry: the own resistors of every mesh, in the order
  typed, then the shared resistors whose typed value is positive, in the order asked.
\<close>

definition entradas_propias :: "nat \<Rightarrow> nat \<Rightarrow> real list \<Rightarrow> (string \<times> info) list" where
  "entradas_propias i j rs =
     map (\<lambda>(k, r). (nombre_propia i k, \<lparr>valor = r, topologia = Malla (int i)\<rparr>)) (enumerate j rs)"

definition registro_propias :: "(nat \<Rightarrow> real list) \<Rightarrow> nat \<Rightarrow> (string \<times> info) list" where
  "registro_propias p N = concat (map (\<lambda>i. entradas_propias i 0 (p i)) [0..<N])"

definition registro_compartidas :: "(nat \<Rightarrow> nat \<Rightarrow> real) \<Rightarrow> nat \<Rightarrow> (string \<times> info) list" where
  "registro_compartidas c N =
     map (\<lambda>(i, j). (nombre_compartida i j, \<lparr>valor = c i j, topologia = Mallas (int i) (int j)\<rparr>))
       (filter (\<lambda>(i, j). 0 < c i j) (pares N))"

text \<open>
  The sums of the specification over a registry: the values of the resistors of mesh \<open>a\<close>
  alone, of the positive shared resistors that touch mesh \<open>a\<close>, and of the positive shared
  resistors between mesh \<open>a\<close> and mesh \<open>b\<close>.
\<close>

fun toca :: "nat \<Rightarrow> topologia \<Rightarrow> bool" where
  "toca a (Malla i) = False"
| "toca a (Mallas i j) = (i = int a \<or> j = int a)"

fun une :: "nat \<Rightarrow> nat \<Rightarrow> topologia \<Rightarrow> bool" where
  "une a b (Malla i) = False"
| "une a b (Mallas i j) = ((i = int a \<and> j = int b) \<or> (i = int b \<and> j = int a))"

definition suma_exclusivas :: "(string \<times> info) list \<Rightarrow> nat \<Rightarrow> real" where
  "suma_exclusivas reg a =
     sum_list (map (valor \<circ> snd) (filter (\<lambda>(n, d). topologia d = Malla (int a)) reg))"

definition suma_compartidas_de :: "(string \<times> info) list \<Rightarrow> nat \<Rightarrow> real" where
  "suma_compartidas_de reg a =
     sum_list (map (valor \<circ> snd) (filter (\<lambda>(n, d). toca a (topologia d) \<and> 0 < valor d) reg))"

definition suma_compartidas_entre :: "(string \<times> info) list \<Rightarrow> nat \<Rightarrow> nat \<Rightarrow> real" where
  "suma_compartidas_entre reg a b =
     sum_list (map (valor \<circ> snd) (filter (\<lambda>(n, d). une a b (topologia d) \<and> 0 < valor d) reg))"

text \<open>
  The end-to-end scenario of the specification: two meshes, sources \<open>10\<close> and \<open>0\<close>, one
  resistor of \<open>2\<close> ohm in mesh 1 alone, one of \<open>3\<close> ohm in mesh 2 alone, and \<open>1\<close> ohm between
  them.
\<close>

definition fuentes_ej :: "nat \<Rightarrow> real" where
  "fuentes_ej i = (if i = 0 then 10 else 0)"

definition propias_ej :: "nat \<Rightarrow> real list" where
  "propias_ej i = (if i = 0 then [2] else [3])"

definition compartidas_ej :: "nat \<Rightarrow> nat \<Rightarrow> real" where
  "compartidas_ej i j = 1"

text \<open>
  A system of \<open>n\<close> equations in \<open>n\<close> unknowns, each a row of coefficients with its right-hand
  side; a vector solves it, or is mapped to zero by its rows.
\<close>

definition bien_formado :: "nat \<Rightarrow> (real list \<times> real) list \<Rightarrow> bool" where
  "bien_formado n filas = (length filas = n \<and> (\<forall>f \<in> set filas. length (fst f) = n))"

definition resuelve :: "(real list \<times> real) list \<Rightarrow> real list \<Rightarrow> bool" where
  "resuelve filas x = (\<forall>f \<in> set filas. producto (fst f) x = snd f)"

definition anula :: "(real list \<times> real) list \<Rightarrow> real list \<Rightarrow> bool" where
  "anula filas x = (\<forall>f \<in> set filas. producto (fst f) x = 0)"

text \<open>
  A square matrix is singular when it maps some vector other than zero to zero, which is
  to say that its determinant is \<open>0\<close>.
\<close>

definition singular :: "real list list \<Rightarrow> bool" where
  "singular a =
     (\<exists>x. length x = length a \<and> (\<exists>v \<in> set x. v \<noteq> 0) \<and> (\<forall>fila \<in> set a. producto fila x = 0))"

section \<open>The resolver: \<^verbatim>\<open>calcular_potencia\<close>\<close>

lemma update_nuevo:
  "k \<notin> fst ` set al \<Longrightarrow> AList.update k v al = al @ [(k, v)]"
  by (induction al) auto

lemma fold_update_distintos:
  "distinct (map fst xs) \<Longrightarrow> fst ` set xs \<inter> fst ` set acc = {} \<Longrightarrow>
   fold (\<lambda>(n, d) res. AList.update n (f d) res) xs acc = acc @ map (\<lambda>(n, d). (n, f d)) xs"
proof (induction xs arbitrary: acc)
  case Nil
  then show ?case by simp
next
  case (Cons x xs)
  obtain n d where x: "x = (n, d)" by (cases x)
  from Cons.prems have fresh: "n \<notin> fst ` set acc" by (auto simp: x)
  have "fst ` set xs \<inter> fst ` set (acc @ [(n, f d)]) = {}"
    using Cons.prems by (auto simp: x)
  with Cons.IH [of "acc @ [(n, f d)]"] Cons.prems show ?case
    by (simp add: x update_nuevo [OF fresh])
qed

text \<open>On a dictionary (distinct keys) the loop is a map over the items, in their order.\<close>

lemma calcular_potencia_map:
  "distinct (map fst reg) \<Longrightarrow>
   calcular_potencia reg I = map (\<lambda>(n, d). (n, resultado_de d I)) reg"
  unfolding calcular_potencia_def
  using fold_update_distintos [of reg "[]" "\<lambda>d. resultado_de d I"] by simp

lemma map_of_calcular_potencia:
  assumes "distinct (map fst reg)" "(nombre, dato) \<in> set reg"
  shows "map_of (calcular_potencia reg I) nombre = Some (resultado_de dato I)"
proof -
  have "map_of (map (\<lambda>(n, d). (n, resultado_de d I)) reg) nombre
        = map_option (\<lambda>d. resultado_de d I) (map_of reg nombre)"
    by (induction reg) auto
  with assms show ?thesis
    by (simp add: calcular_potencia_map)
qed

lemma indexar_si:
  "indexar xs i =
     (if indice_valido (length xs) i then Inr (elemento xs i)
      else Inl (excepcion_de (length xs) i))"
  by (auto simp: indexar_def indice_valido_def elemento_def excepcion_de_def Let_def)

lemma corriente_resistor_en_rango:
  "en_rango t (length I) \<Longrightarrow> corriente_resistor t I = Inr (corriente_cruda t I)"
  by (cases t) (simp_all add: indexar_si indice_valido_def elemento_def)

lemma resultado_de_en_rango:
  "en_rango (topologia dato) (length I) \<Longrightarrow>
   resultado_de dato I =
     \<lparr>R = valor dato, Corriente = Numero \<bar>corriente_cruda (topologia dato) I\<bar>,
      Potencia = Numero ((corriente_cruda (topologia dato) I)\<^sup>2 * valor dato)\<rparr>"
  by (simp add: resultado_de_def corriente_resistor_en_rango Let_def)

text \<open>The resistor raises at the first index it reads that the array does not accept.\<close>

lemma corriente_resistor_find:
  "corriente_resistor t I =
     (case find (\<lambda>k. \<not> indice_valido (length I) k) (indices t) of
        Some k \<Rightarrow> Inl (excepcion_de (length I) k)
      | None \<Rightarrow> Inr (corriente_numpy t I))"
  by (cases t) (simp_all add: indexar_si)

lemma resultado_de_find:
  "resultado_de dato I =
     (case find (\<lambda>k. \<not> indice_valido (length I) k) (indices (topologia dato)) of
        Some k \<Rightarrow> \<lparr>R = valor dato, Corriente = Texto ''ERROR'',
                   Potencia = TextoError (excepcion_de (length I) k)\<rparr>
      | None \<Rightarrow> \<lparr>R = valor dato, Corriente = Numero \<bar>corriente_numpy (topologia dato) I\<bar>,
                 Potencia = Numero ((corriente_numpy (topologia dato) I)\<^sup>2 * valor dato)\<rparr>)"
  by (simp add: resultado_de_def corriente_resistor_find Let_def split: option.splits)

lemma resultado_de_texto:
  "celda_texto (Corriente (resultado_de dato I)) = celda_texto (Potencia (resultado_de dato I))"
  by (simp add: resultado_de_def celda_texto_def Let_def split: sum.splits)

text \<open>
  Claim C3 says that the reported power is non-negative for every resistor. The resolver
  computes \<open>corriente\<^sup>2 \<cdot> r\<close> (line 31, under the comment that the power is always positive),
  and \<^verbatim>\<open>main\<close> registers the value typed for an exclusive resistor without looking at
  its sign (lines 85 to 88), while it registers a shared resistor only when its value is
  positive (line 103). So a negative value typed for an exclusive resistor is registered
  and reported with a negative power: one mesh, a source of \<open>10\<close> and one resistor of \<open>-5\<close>
  give the registry below; the mesh current that solves \<open>-5 \<cdot> I = 10\<close> is \<open>-2\<close>, the index
  \<open>0\<close> is in range, and the resolver reports the current \<open>2\<close> and the power \<open>-20\<close>.
\<close>

theorem negative_resistance_reports_negative_power:
  "resistencias (construir 1 (\<lambda>i. 10) (\<lambda>i. [- 5]) (\<lambda>i j. 0))
     = [(''R1_p1'', \<lparr>valor = - 5, topologia = Malla 0\<rparr>)]
   \<and> matriz_R (construir 1 (\<lambda>i. 10) (\<lambda>i. [- 5]) (\<lambda>i j. 0)) = [[- 5]]
   \<and> vector_V (construir 1 (\<lambda>i. 10) (\<lambda>i. [- 5]) (\<lambda>i j. 0)) = [10]
   \<and> en_rango (Malla 0) (length [- 2 :: real])
   \<and> calcular_potencia [(''R1_p1'', \<lparr>valor = - 5, topologia = Malla 0\<rparr>)] [- 2]
     = [(''R1_p1'', \<lparr>R = - 5, Corriente = Numero 2, Potencia = Numero (- 20)\<rparr>)]"
  by (simp add: construir_def paso_malla_def estado_inicial_def mat_set_def nombre_propia_def
      str_nat.simps digito_def calcular_potencia_def resultado_de_def indexar_def)

text \<open>
  Claim C5, as amended. The resolver stores under the name of every resistor of the
  registry exactly one of two entries. If one of the indices of the resistor lies outside
  the range numpy accepts, that is \<open>\<ge> N\<close> or \<open>< -N\<close>, the entry is the error marker:
  \<^verbatim>\<open>'ERROR'\<close> as current and, as power, the text \<^verbatim>\<open>'Error: '\<close> followed by the message of the
  exception that the first such index raises, in the order in which the resistor reads its
  indices; for an index \<open>k\<close> that fits a C \<^verbatim>\<open>long\<close> this text is
  \<^verbatim>\<open>'Error: index k is out of bounds for axis 0 with size N'\<close>. Otherwise every index lies
  from \<open>-N\<close> to \<open>N-1\<close> and the entry is numeric: an index from \<open>-N\<close> to \<open>-1\<close> is not an
  error for numpy, it denotes the element \<open>k + N\<close>, counted from the end of the array.
\<close>

theorem out_of_range_index_gives_error_marker:
  assumes "distinct (map fst reg)" and "(nombre, dato) \<in> set reg"
  shows "map_of (calcular_potencia reg I) nombre =
           Some (case find (\<lambda>k. k < - int (length I) \<or> int (length I) \<le> k)
                           (indices (topologia dato)) of
                   Some k \<Rightarrow>
                     \<lparr>R = valor dato, Corriente = Texto ''ERROR'',
                      Potencia = TextoError (if cabe_en_long k then IndexError k (length I)
                                             else ErrorDeConversion k)\<rparr>
                 | None \<Rightarrow>
                     \<lparr>R = valor dato, Corriente = Numero \<bar>corriente_numpy (topologia dato) I\<bar>,
                      Potencia = Numero ((corriente_numpy (topologia dato) I)\<^sup>2 * valor dato)\<rparr>)
         \<and> str_celda (TextoError (IndexError i (length I)))
           = Some (''Error: index '' @ str_int i @ '' is out of bounds for axis 0 with size ''
                   @ str_nat (length I))"
proof -
  have "(\<lambda>k. \<not> indice_valido (length I) k) = (\<lambda>k. k < - int (length I) \<or> int (length I) \<le> k)"
    by (auto simp: indice_valido_def)
  with assms show ?thesis
    by (simp add: map_of_calcular_potencia resultado_de_find excepcion_de_def
        split: option.splits)
qed

theorem out_of_range_index_gives_error_marker_witness:
  "distinct (map fst [(''R_c8-0'', \<lparr>valor = 1, topologia = Mallas 7 (- 9)\<rparr>),
                      (''R0_p1'', \<lparr>valor = 5, topologia = Malla (- 3)\<rparr>)])
   \<and> map_of (calcular_potencia [(''R_c8-0'', \<lparr>valor = 1, topologia = Mallas 7 (- 9)\<rparr>),
                                 (''R0_p1'', \<lparr>valor = 5, topologia = Malla (- 3)\<rparr>)] [2, 1, 4])
        ''R_c8-0''
     = Some \<lparr>R = 1, Corriente = Texto ''ERROR'', Potencia = TextoError (IndexError 7 3)\<rparr>
   \<and> str_celda (TextoError (IndexError 7 3))
     = Some ''Error: index 7 is out of bounds for axis 0 with size 3''
   \<and> map_of (calcular_potencia [(''R_c8-0'', \<lparr>valor = 1, topologia = Mallas 7 (- 9)\<rparr>),
                                 (''R0_p1'', \<lparr>valor = 5, topologia = Malla (- 3)\<rparr>)] [2, 1, 4])
        ''R0_p1''
     = Some \<lparr>R = 5, Corriente = Numero 2, Potencia = Numero 20\<rparr>"
  using out_of_range_index_gives_error_marker
    [of "[(''R_c8-0'', \<lparr>valor = 1, topologia = Mallas 7 (- 9)\<rparr>),
          (''R0_p1'', \<lparr>valor = 5, topologia = Malla (- 3)\<rparr>)]"
        "''R_c8-0''" "\<lparr>valor = 1, topologia = Mallas 7 (- 9)\<rparr>" "[2, 1, 4]" 7]
    out_of_range_index_gives_error_marker
    [of "[(''R_c8-0'', \<lparr>valor = 1, topologia = Mallas 7 (- 9)\<rparr>),
          (''R0_p1'', \<lparr>valor = 5, topologia = Malla (- 3)\<rparr>)]"
        "''R0_p1''" "\<lparr>valor = 5, topologia = Malla (- 3)\<rparr>" "[2, 1, 4]" 7]
  by (simp add: cabe_en_long_def elemento_def str_int_def str_nat.simps digito_def
      numeral_3_eq_3)

text \<open>
  The claim as the specification states it fails at a negative index: with one mesh
  current \<open>[2]\<close>, a resistor of \<open>5\<close> ohm registered for mesh \<open>-1\<close> is out of the range
  \<open>0 .. N-1\<close>, and the resolver reports the numeric result read from the last mesh.
\<close>

theorem negative_index_is_not_an_error:
  "\<not> en_rango (Malla (- 1)) (length [2 :: real])
   \<and> map_of (calcular_potencia [(''R1_p1'', \<lparr>valor = 5, topologia = Malla (- 1)\<rparr>)] [2]) ''R1_p1''
     = Some \<lparr>R = 5, Corriente = Numero 2, Potencia = Numero 20\<rparr>"
  by (simp add: calcular_potencia_def resultado_de_def indexar_def)

text \<open>
  Claim C6. The resolver's output has an entry for every resistor of the registry, under
  the same names in the same order, and every resistor whose indices are in range has its
  numeric result there, whatever happens to the other resistors.
\<close>

theorem failure_is_contained_to_its_entry:
  assumes "distinct (map fst reg)"
  shows "map fst (calcular_potencia reg I) = map fst reg
         \<and> (\<forall>(nombre, dato) \<in> set reg.
              en_rango (topologia dato) (length I) \<longrightarrow>
              map_of (calcular_potencia reg I) nombre =
                Some \<lparr>R = valor dato, Corriente = Numero \<bar>corriente_cruda (topologia dato) I\<bar>,
                      Potencia = Numero ((corriente_cruda (topologia dato) I)\<^sup>2 * valor dato)\<rparr>)"
proof -
  have "map fst (map (\<lambda>(n, d). (n, resultado_de d I)) reg) = map fst reg"
    by (induction reg) auto
  with assms have "map fst (calcular_potencia reg I) = map fst reg"
    by (simp add: calcular_potencia_map)
  moreover have "map_of (calcular_potencia reg I) nombre =
                Some \<lparr>R = valor dato, Corriente = Numero \<bar>corriente_cruda (topologia dato) I\<bar>,
                      Potencia = Numero ((corriente_cruda (topologia dato) I)\<^sup>2 * valor dato)\<rparr>"
    if "(nombre, dato) \<in> set reg" "en_rango (topologia dato) (length I)" for nombre dato
    using assms that by (simp add: map_of_calcular_potencia resultado_de_en_rango)
  ultimately show ?thesis by blast
qed

theorem failure_is_contained_to_its_entry_witness:
  "distinct (map fst [(''R1_p1'', \<lparr>valor = 5, topologia = Malla 0\<rparr>),
                      (''R_c1-6'', \<lparr>valor = 1, topologia = Mallas 0 5\<rparr>),
                      (''R_c2-3'', \<lparr>valor = 2, topologia = Mallas 1 2\<rparr>)])
   \<and> calcular_potencia [(''R1_p1'', \<lparr>valor = 5, topologia = Malla 0\<rparr>),
                         (''R_c1-6'', \<lparr>valor = 1, topologia = Mallas 0 5\<rparr>),
                         (''R_c2-3'', \<lparr>valor = 2, topologia = Mallas 1 2\<rparr>)] [2, 1, 4]
     = [(''R1_p1'', \<lparr>R = 5, Corriente = Numero 2, Potencia = Numero 20\<rparr>),
        (''R_c1-6'', \<lparr>R = 1, Corriente = Texto ''ERROR'',
            Potencia = TextoError (IndexError 5 3)\<rparr>),
        (''R_c2-3'', \<lparr>R = 2, Corriente = Numero 3, Potencia = Numero 18\<rparr>)]"
  using failure_is_contained_to_its_entry
    [of "[(''R1_p1'', \<lparr>valor = 5, topologia = Malla 0\<rparr>),
          (''R_c1-6'', \<lparr>valor = 1, topologia = Mallas 0 5\<rparr>),
          (''R_c2-3'', \<lparr>valor = 2, topologia = Mallas 1 2\<rparr>)]" "[2, 1, 4]"]
  by (simp add: calcular_potencia_def resultado_de_def indexar_def cabe_en_long_def
      numeral_3_eq_3)

text \<open>
  Claim C10. With both indices in range, a shared resistor registered for \<open>(i, j)\<close> and
  the same resistor registered for \<open>(j, i)\<close> give the same output of the resolver, in any
  registry: the reported current is \<open>\<bar>I\<^sub>i - I\<^sub>j\<bar>\<close> and the power \<open>(I\<^sub>i - I\<^sub>j)\<^sup>2 \<cdot> r\<close>.
\<close>

theorem shared_resistor_orientation_irrelevant:
  assumes "0 \<le> i" "i < int (length I)" "0 \<le> j" "j < int (length I)"
  shows "calcular_potencia (xs @ (nombre, \<lparr>valor = r, topologia = Mallas i j\<rparr>) # ys) I
         = calcular_potencia (xs @ (nombre, \<lparr>valor = r, topologia = Mallas j i\<rparr>) # ys) I
       \<and> resultado_de \<lparr>valor = r, topologia = Mallas i j\<rparr> I
         = \<lparr>R = r, Corriente = Numero \<bar>I ! nat i - I ! nat j\<bar>,
            Potencia = Numero ((I ! nat i - I ! nat j)\<^sup>2 * r)\<rparr>
       \<and> resultado_de \<lparr>valor = r, topologia = Mallas j i\<rparr> I
         = resultado_de \<lparr>valor = r, topologia = Mallas i j\<rparr> I"
proof -
  have a: "resultado_de \<lparr>valor = r, topologia = Mallas i j\<rparr> I
         = \<lparr>R = r, Corriente = Numero \<bar>I ! nat i - I ! nat j\<bar>,
            Potencia = Numero ((I ! nat i - I ! nat j)\<^sup>2 * r)\<rparr>"
    using assms by (simp add: resultado_de_en_rango)
  have b: "resultado_de \<lparr>valor = r, topologia = Mallas j i\<rparr> I
         = \<lparr>R = r, Corriente = Numero \<bar>I ! nat j - I ! nat i\<bar>,
            Potencia = Numero ((I ! nat j - I ! nat i)\<^sup>2 * r)\<rparr>"
    using assms by (simp add: resultado_de_en_rango)
  have c: "resultado_de \<lparr>valor = r, topologia = Mallas j i\<rparr> I
        = resultado_de \<lparr>valor = r, topologia = Mallas i j\<rparr> I"
    unfolding a b by (simp add: abs_minus_commute power2_commute)
  then show ?thesis using a
    by (simp add: calcular_potencia_def)
qed

theorem shared_resistor_orientation_irrelevant_witness:
  "(0 :: int) < int (length [1, 4 :: real]) \<and> (1 :: int) < int (length [1, 4 :: real])
   \<and> calcular_potencia [(''R_c1-2'', \<lparr>valor = 2, topologia = Mallas 0 1\<rparr>)] [1, 4]
     = calcular_potencia [(''R_c1-2'', \<lparr>valor = 2, topologia = Mallas 1 0\<rparr>)] [1, 4]
   \<and> resultado_de \<lparr>valor = 2, topologia = Mallas 1 0\<rparr> [1, 4]
     = \<lparr>R = 2, Corriente = Numero 3, Potencia = Numero 18\<rparr>"
  using shared_resistor_orientation_irrelevant
    [of 0 "[1, 4]" 1 "[]" "''R_c1-2''" 2 "[]"]
  by simp

section \<open>The total power\<close>

lemma potencia_total_Cons:
  "potencia_total ((n, d) # res) =
     (case Potencia d of Numero p \<Rightarrow> p | Texto s \<Rightarrow> 0 | TextoError e \<Rightarrow> 0) + potencia_total res"
  by (simp add: potencia_total_def split: celda.splits)

lemma potencia_total_append:
  "potencia_total (xs @ ys) = potencia_total xs + potencia_total ys"
  by (simp add: potencia_total_def)

text \<open>
  Claim C7. The total is the sum of the powers of the entries that are not in error
  state; an entry in error state adds nothing, so the total is the same with it and
  without it.
\<close>

theorem total_power_skips_error_entries:
  "potencia_total res
     = sum_list (map (\<lambda>(n, d). potencia_de d) (filter (\<lambda>(n, d). \<not> en_error d) res))
   \<and> potencia_total (xs @ (nombre, marcador_error r e) # ys) = potencia_total (xs @ ys)"
proof
  show "potencia_total res
     = sum_list (map (\<lambda>(n, d). potencia_de d) (filter (\<lambda>(n, d). \<not> en_error d) res))"
  proof (induction res)
    case Nil
    show ?case by (simp add: potencia_total_def)
  next
    case (Cons x res)
    obtain n d where x: "x = (n, d)" by (cases x)
    have "potencia_total (x # res) = (if en_error d then 0 else potencia_de d) + potencia_total res"
      unfolding x potencia_total_Cons
      by (cases "Potencia d") (simp_all add: en_error_def potencia_de_def celda_texto_def)
    with Cons.IH show ?case
      by (simp add: x)
  qed
  have "potencia_total ((nombre, marcador_error r e) # ys) = potencia_total ys"
    by (simp add: potencia_total_Cons marcador_error_def)
  then show "potencia_total (xs @ (nombre, marcador_error r e) # ys) = potencia_total (xs @ ys)"
    by (simp add: potencia_total_append)
qed

section \<open>The matrix builder\<close>

lemma cuadrada_nth: "cuadrada N m \<Longrightarrow> i < N \<Longrightarrow> length (m ! i) = N"
  by (simp add: cuadrada_def list_all_length)

lemma cuadrada_mat_set: "cuadrada N m \<Longrightarrow> cuadrada N (mat_set m i j v)"
proof (cases "i < length m")
  case True
  assume "cuadrada N m"
  with True show ?thesis
    by (auto simp: cuadrada_def mat_set_def list_all_length nth_list_update)
next
  case False
  assume "cuadrada N m"
  with False show ?thesis
    by (simp add: mat_set_def not_less list_update_beyond)
qed

lemma mat_set_nth:
  "cuadrada N m \<Longrightarrow> i < N \<Longrightarrow> j < N \<Longrightarrow> a < N \<Longrightarrow> b < N \<Longrightarrow>
   mat_set m i j v ! a ! b = (if a = i \<and> b = j then v else m ! a ! b)"
  by (auto simp: mat_set_def cuadrada_def list_all_length nth_list_update)

lemma cuadrada_paso_compartida:
  "cuadrada N (matriz_R st) \<Longrightarrow> cuadrada N (matriz_R (paso_compartida i j r st))"
  by (simp add: paso_compartida_def Let_def cuadrada_mat_set)

lemma paso_compartida_nth:
  assumes "cuadrada N (matriz_R st)" "i < N" "j < N" "i \<noteq> j" "a < N" "b < N"
  shows "matriz_R (paso_compartida i j r st) ! a ! b =
      (if 0 < r then
         (if (a = i \<and> b = j) \<or> (a = j \<and> b = i) then - r
          else if a = b \<and> (a = i \<or> a = j) then matriz_R st ! a ! a + r
          else matriz_R st ! a ! b)
       else matriz_R st ! a ! b)"
  using assms
  by (auto simp: paso_compartida_def Let_def mat_set_nth [where N = N] cuadrada_mat_set)

lemma simetrica_paso_compartida:
  assumes "cuadrada N (matriz_R st)" "simetrica N (matriz_R st)" "i < N" "j < N" "i \<noteq> j"
  shows "simetrica N (matriz_R (paso_compartida i j r st))"
  unfolding simetrica_def
proof (intro allI impI)
  fix a b assume "a < N" "b < N"
  with assms show "matriz_R (paso_compartida i j r st) ! a ! b
      = matriz_R (paso_compartida i j r st) ! b ! a"
    by (auto simp: paso_compartida_nth [where N = N] simetrica_def)
qed

lemma fst_bucle_propias:
  "fst (bucle_propias i j rs (s, reg)) = s + sum_list rs"
  by (induction rs arbitrary: j s reg) simp_all

lemma matriz_paso_malla:
  "matriz_R (paso_malla fuentes propias i st) = mat_set (matriz_R st) i i (sum_list (propias i))"
  using fst_bucle_propias [of i 0 "propias i" 0 "resistencias st"]
  by (cases "bucle_propias i 0 (propias i) (0, resistencias st)")
     (simp add: paso_malla_def Let_def)

lemma cuadrada_paso_malla:
  "cuadrada N (matriz_R st) \<Longrightarrow> cuadrada N (matriz_R (paso_malla fuentes propias i st))"
  by (simp add: matriz_paso_malla cuadrada_mat_set)

lemma simetrica_paso_malla:
  assumes "cuadrada N (matriz_R st)" "simetrica N (matriz_R st)" "i < N"
  shows "simetrica N (matriz_R (paso_malla fuentes propias i st))"
  using assms by (auto simp: simetrica_def matriz_paso_malla mat_set_nth [where N = N])

lemma fold_invariante:
  "\<lbrakk>P s; \<And>x s. x \<in> set xs \<Longrightarrow> P s \<Longrightarrow> P (f x s)\<rbrakk> \<Longrightarrow> P (fold f xs s)"
  by (induction xs arbitrary: s) simp_all

lemma fold_anidado:
  "fold (\<lambda>i s. fold (g i) (h i) s) xs s
   = fold (\<lambda>(i, j). g i j) (concat (map (\<lambda>i. map (Pair i) (h i)) xs)) s"
  by (induction xs arbitrary: s) (simp_all add: fold_map comp_def)

lemma construir_pares:
  "construir N fuentes propias compartidas =
     fold (\<lambda>(i, j). paso_compartida i j (compartidas i j)) (pares N)
       (fold (paso_malla fuentes propias) [0..<N] (estado_inicial N))"
  unfolding construir_def pares_def
  by (rule fold_anidado [of "\<lambda>i j. paso_compartida i j (compartidas i j)" "\<lambda>i. [Suc i..<N]"])

lemma set_pares: "(a, b) \<in> set (pares N) \<longleftrightarrow> a < b \<and> b < N"
  by (force simp: pares_def)

lemma cuadrada_inicial: "cuadrada N (matriz_R (estado_inicial N))"
  by (simp add: estado_inicial_def cuadrada_def list_all_length)

lemma simetrica_inicial: "simetrica N (matriz_R (estado_inicial N))"
  by (simp add: estado_inicial_def simetrica_def)

lemma inv_sim_mallas:
  "inv_sim N (fold (paso_malla fuentes propias) [0..<N] (estado_inicial N))"
  by (rule fold_invariante)
     (auto simp: inv_sim_def cuadrada_inicial simetrica_inicial cuadrada_paso_malla
        simetrica_paso_malla)

lemma inv_sim_construir: "inv_sim N (construir N fuentes propias compartidas)"
  unfolding construir_pares
proof (rule fold_invariante)
  show "inv_sim N (fold (paso_malla fuentes propias) [0..<N] (estado_inicial N))"
    by (rule inv_sim_mallas)
next
  fix x st assume x: "x \<in> set (pares N)" and inv: "inv_sim N st"
  obtain i j where ij: "x = (i, j)" by (cases x)
  with x have "i < N" "j < N" "i \<noteq> j" by (auto simp: set_pares)
  with inv show "inv_sim N ((case x of (i, j) \<Rightarrow> paso_compartida i j (compartidas i j)) st)"
    by (simp add: ij inv_sim_def cuadrada_paso_compartida simetrica_paso_compartida)
qed


lemma fold_paso_malla_nth:
  assumes "k \<le> N" "a < N" "b < N"
  shows "cuadrada N (matriz_R (fold (paso_malla f p) [0..<k] (estado_inicial N)))
       \<and> matriz_R (fold (paso_malla f p) [0..<k] (estado_inicial N)) ! a ! b
         = (if a = b \<and> a < k then sum_list (p a) else 0)"
  using assms(1)
proof (induction k)
  case 0
  from assms(2,3) show ?case
    by (simp add: cuadrada_inicial) (simp add: estado_inicial_def)
next
  case (Suc k)
  then have IH: "cuadrada N (matriz_R (fold (paso_malla f p) [0..<k] (estado_inicial N)))"
    "matriz_R (fold (paso_malla f p) [0..<k] (estado_inicial N)) ! a ! b
         = (if a = b \<and> a < k then sum_list (p a) else 0)"
    by simp_all
  from Suc.prems have "k < N" by simp
  with IH assms(2,3) show ?case
    by (auto simp: matriz_paso_malla cuadrada_mat_set mat_set_nth [where N = N])
qed

lemma fold_compartida_cuadrada:
  "cuadrada N (matriz_R st) \<Longrightarrow>
   cuadrada N (matriz_R (fold (\<lambda>(i, j). paso_compartida i j (c i j)) ps st))"
  by (rule fold_invariante [where P = "\<lambda>st. cuadrada N (matriz_R st)"])
     (auto simp: cuadrada_paso_compartida)

lemma fold_compartida_fuera:
  assumes "cuadrada N (matriz_R st)" "\<forall>(i, j) \<in> set ps. i < j \<and> j < N"
    and "a < b" "b < N"
  shows "matriz_R (fold (\<lambda>(i, j). paso_compartida i j (c i j)) ps st) ! a ! b
           = (if (a, b) \<in> set ps \<and> 0 < c a b then - c a b else matriz_R st ! a ! b)
       \<and> matriz_R (fold (\<lambda>(i, j). paso_compartida i j (c i j)) ps st) ! b ! a
           = (if (a, b) \<in> set ps \<and> 0 < c a b then - c a b else matriz_R st ! b ! a)"
  using assms(1,2)
proof (induction ps arbitrary: st)
  case Nil
  show ?case by simp
next
  case (Cons x ps)
  obtain i j where x: "x = (i, j)" by (cases x)
  with Cons.prems have ij: "i < j" "j < N" "i < N" "i \<noteq> j" by auto
  from assms(3,4) have ab: "a < N" "a \<noteq> b" by simp_all
  have c: "cuadrada N (matriz_R (paso_compartida i j (c i j) st))"
    using Cons.prems(1) by (rule cuadrada_paso_compartida)
  have rest: "\<forall>(i, j) \<in> set ps. i < j \<and> j < N"
    using Cons.prems(2) by simp
  have step1: "matriz_R (paso_compartida i j (c i j) st) ! a ! b
      = (if (a, b) = (i, j) \<and> 0 < c a b then - c a b else matriz_R st ! a ! b)"
    using Cons.prems(1) ij assms(3,4) ab
    by (auto simp: paso_compartida_nth [where N = N])
  have step2: "matriz_R (paso_compartida i j (c i j) st) ! b ! a
      = (if (a, b) = (i, j) \<and> 0 < c a b then - c a b else matriz_R st ! b ! a)"
    using Cons.prems(1) ij assms(3,4) ab
    by (auto simp: paso_compartida_nth [where N = N])
  have e: "fold (\<lambda>(i, j). paso_compartida i j (c i j)) (x # ps) st
      = fold (\<lambda>(i, j). paso_compartida i j (c i j)) ps (paso_compartida i j (c i j) st)"
    by (simp add: x)
  have m: "(a, b) \<in> set (x # ps) \<longleftrightarrow> (a, b) = (i, j) \<or> (a, b) \<in> set ps"
    by (auto simp: x)
  show ?case
    unfolding e m
    using Cons.IH [OF c rest] unfolding step1 step2
    by (auto split: if_splits)
qed

lemma fold_compartida_diag:
  assumes "cuadrada N (matriz_R st)" "\<forall>(i, j) \<in> set ps. i < j \<and> j < N" and "a < N"
  shows "matriz_R (fold (\<lambda>(i, j). paso_compartida i j (c i j)) ps st) ! a ! a
       = matriz_R st ! a ! a
         + (\<Sum>(i, j) \<leftarrow> ps. if i = a \<or> j = a then positiva (c i j) else 0)"
  using assms(1,2)
proof (induction ps arbitrary: st)
  case Nil
  show ?case by simp
next
  case (Cons x ps)
  obtain i j where x: "x = (i, j)" by (cases x)
  with Cons.prems have ij: "i < j" "j < N" "i < N" "i \<noteq> j" by auto
  have c: "cuadrada N (matriz_R (paso_compartida i j (c i j) st))"
    using Cons.prems(1) by (rule cuadrada_paso_compartida)
  have rest: "\<forall>(i, j) \<in> set ps. i < j \<and> j < N"
    using Cons.prems(2) by simp
  have step: "matriz_R (paso_compartida i j (c i j) st) ! a ! a
      = matriz_R st ! a ! a + (if i = a \<or> j = a then positiva (c i j) else 0)"
    using Cons.prems(1) ij assms(3)
    by (auto simp: paso_compartida_nth [where N = N] positiva_def)
  show ?case
    unfolding x fold_Cons comp_def prod.case Cons.IH [OF c rest] step
    by simp
qed

lemma pares_ok: "\<forall>(i, j) \<in> set (pares N). i < j \<and> j < N"
  by (auto simp: set_pares)

lemma construir_diag:
  assumes "a < N"
  shows "matriz_R (construir N f p c) ! a ! a
     = sum_list (p a) + (\<Sum>(i, j) \<leftarrow> pares N. if i = a \<or> j = a then positiva (c i j) else 0)"
  unfolding construir_pares
  using fold_paso_malla_nth [of N N a a f p] assms
  by (simp add: fold_compartida_diag [where N = N] pares_ok)

lemma construir_fuera:
  assumes "a < N" "b < N" "a \<noteq> b"
  shows "matriz_R (construir N f p c) ! a ! b = - positiva (c (min a b) (max a b))"
proof -
  let ?st = "fold (paso_malla f p) [0..<N] (estado_inicial N)"
  have c: "cuadrada N (matriz_R ?st)"
    using fold_paso_malla_nth [of N N a b f p] assms by simp
  have z: "matriz_R ?st ! a ! b = 0" "matriz_R ?st ! b ! a = 0"
    using fold_paso_malla_nth [of N N a b f p] fold_paso_malla_nth [of N N b a f p] assms
    by simp_all
  show ?thesis
  proof (cases "a < b")
    case True
    with fold_compartida_fuera [OF c pares_ok True assms(2), of c] z show ?thesis
      by (simp add: construir_pares set_pares assms positiva_def)
  next
    case False
    with assms have ba: "b < a" by simp
    with fold_compartida_fuera [OF c pares_ok ba assms(1), of c] z show ?thesis
      by (simp add: construir_pares set_pares assms positiva_def min_def max_def)
  qed
qed

subsection \<open>The generated names are distinct\<close>

lemma digito_inj: "d < 10 \<Longrightarrow> e < 10 \<Longrightarrow> digito d = digito e \<longleftrightarrow> d = e"
proof -
  have "distinct ''0123456789''" by simp
  moreover have "length ''0123456789'' = 10" by simp
  ultimately show "d < 10 \<Longrightarrow> e < 10 \<Longrightarrow> digito d = digito e \<longleftrightarrow> d = e"
    unfolding digito_def by (metis nth_eq_iff_index_eq)
qed

lemma digito_en: "d < 10 \<Longrightarrow> digito d \<in> set ''0123456789''"
  unfolding digito_def by (rule nth_mem) simp

lemma set_str_nat: "set (str_nat n) \<subseteq> set ''0123456789''"
proof (induction n rule: str_nat.induct)
  case (1 n)
  show ?case
  proof (cases "n < 10")
    case True
    then show ?thesis using digito_en [of n] by (subst str_nat.simps) simp
  next
    case False
    then show ?thesis using "1" digito_en [of "n mod 10"] by (subst str_nat.simps) simp
  qed
qed

lemma str_nat_no_vacia: "str_nat n \<noteq> []"
  by (subst str_nat.simps) simp

lemma str_nat_inj: "str_nat m = str_nat n \<Longrightarrow> m = n"
proof (induction m arbitrary: n rule: str_nat.induct)
  case (1 m)
  show ?case
  proof (cases "m < 10")
    case True
    note m = this
    show ?thesis
    proof (cases "n < 10")
      case True
      with m "1.prems" show ?thesis
        by (simp add: str_nat.simps [of m] str_nat.simps [of n] digito_inj)
    next
      case False
      with m "1.prems" str_nat_no_vacia [of "n div 10"] show ?thesis
        by (simp add: str_nat.simps [of m] str_nat.simps [of n] Cons_eq_append_conv)
    qed
  next
    case False
    note m = this
    show ?thesis
    proof (cases "n < 10")
      case True
      with m "1.prems" str_nat_no_vacia [of "m div 10"] show ?thesis
        by (simp add: str_nat.simps [of m] str_nat.simps [of n] append_eq_Cons_conv)
    next
      case False
      with m "1.prems" have "str_nat (m div 10) = str_nat (n div 10)"
        and "digito (m mod 10) = digito (n mod 10)"
        by (simp_all add: str_nat.simps [of m] str_nat.simps [of n])
      with m "1.IH" [of "n div 10"] have "m div 10 = n div 10" "m mod 10 = n mod 10"
        by (simp_all add: digito_inj)
      then show ?thesis by (metis div_mult_mod_eq)
    qed
  qed
qed

lemma sin_separador: "CHR ''_'' \<notin> set (str_nat n)" "CHR ''-'' \<notin> set (str_nat n)"
  using set_str_nat [of n] by auto

lemma nombre_propia_inj:
  "nombre_propia i j = nombre_propia i' j' \<longleftrightarrow> i = i' \<and> j = j'"
proof
  assume "nombre_propia i j = nombre_propia i' j'"
  then have "str_nat (i + 1) @ CHR ''_'' # (CHR ''p'' # str_nat (j + 1))
           = str_nat (i' + 1) @ CHR ''_'' # (CHR ''p'' # str_nat (j' + 1))"
    by (simp add: nombre_propia_def)
  then have "str_nat (i + 1) = str_nat (i' + 1) \<and> str_nat (j + 1) = str_nat (j' + 1)"
    by (simp add: append_Cons_eq_iff sin_separador)
  then show "i = i' \<and> j = j'"
    using str_nat_inj by fastforce
qed simp

lemma nombre_compartida_inj:
  "nombre_compartida i j = nombre_compartida i' j' \<longleftrightarrow> i = i' \<and> j = j'"
proof
  assume "nombre_compartida i j = nombre_compartida i' j'"
  then have "str_nat (i + 1) @ CHR ''-'' # str_nat (j + 1)
           = str_nat (i' + 1) @ CHR ''-'' # str_nat (j' + 1)"
    by (simp add: nombre_compartida_def)
  then have "str_nat (i + 1) = str_nat (i' + 1) \<and> str_nat (j + 1) = str_nat (j' + 1)"
    by (simp add: append_Cons_eq_iff sin_separador)
  then show "i = i' \<and> j = j'"
    using str_nat_inj by fastforce
qed simp

lemma nombres_distintos: "nombre_propia i j \<noteq> nombre_compartida i' j'"
proof
  assume "nombre_propia i j = nombre_compartida i' j'"
  then have "str_nat (i + 1) @ ''_p'' @ str_nat (j + 1) = CHR ''_'' # CHR ''c'' # str_nat (i' + 1) @ ''-'' @ str_nat (j' + 1)"
    by (simp add: nombre_propia_def nombre_compartida_def)
  then have "hd (str_nat (i + 1)) = CHR ''_''"
    using str_nat_no_vacia [of "i + 1"] by (cases "str_nat (i + 1)") simp_all
  moreover have "hd (str_nat (i + 1)) \<in> set (str_nat (i + 1))"
    using str_nat_no_vacia by simp
  ultimately show False using sin_separador(1) [of "i + 1"] by simp
qed

subsection \<open>The registry the loops build\<close>

lemma snd_bucle_propias:
  "\<forall>k\<ge>j. nombre_propia i k \<notin> fst ` set reg \<Longrightarrow>
   snd (bucle_propias i j rs (s, reg)) = reg @ entradas_propias i j rs"
proof (induction rs arbitrary: j s reg)
  case Nil
  show ?case by (simp add: entradas_propias_def)
next
  case (Cons r rs)
  let ?e = "(nombre_propia i j, \<lparr>valor = r, topologia = Malla (int i)\<rparr>)"
  from Cons.prems have "nombre_propia i j \<notin> fst ` set reg" by simp
  then have u: "AList.update (nombre_propia i j) \<lparr>valor = r, topologia = Malla (int i)\<rparr> reg
      = reg @ [?e]"
    by (rule update_nuevo)
  have "\<forall>k\<ge>Suc j. nombre_propia i k \<notin> fst ` set (reg @ [?e])"
    using Cons.prems by (auto simp: nombre_propia_inj)
  from Cons.IH [OF this] show ?case
    by (simp add: u entradas_propias_def)
qed

lemma fst_entradas_propias:
  "fst ` set (entradas_propias i j rs) \<subseteq> {nombre_propia i k |k. True}"
  by (auto simp: entradas_propias_def)

lemma resistencias_paso_malla:
  assumes "\<forall>k. nombre_propia i k \<notin> fst ` set (resistencias st)"
  shows "resistencias (paso_malla f p i st) = resistencias st @ entradas_propias i 0 (p i)"
  using snd_bucle_propias [of 0 i "resistencias st" "p i" 0] assms
  by (cases "bucle_propias i 0 (p i) (0, resistencias st)") (simp add: paso_malla_def Let_def)

lemma fst_registro_propias:
  "fst ` set (registro_propias p k) \<subseteq> {nombre_propia i j |i j. i < k}"
proof
  fix n assume "n \<in> fst ` set (registro_propias p k)"
  then obtain i where i: "i < k" and "n \<in> fst ` set (entradas_propias i 0 (p i))"
    by (force simp: registro_propias_def)
  with fst_entradas_propias [of i 0 "p i"] obtain j where "n = nombre_propia i j"
    by blast
  with i show "n \<in> {nombre_propia i j |i j. i < k}" by blast
qed

lemma resistencias_mallas:
  "resistencias (fold (paso_malla f p) [0..<k] (estado_inicial N)) = registro_propias p k"
proof (induction k)
  case 0
  show ?case by (simp add: estado_inicial_def registro_propias_def)
next
  case (Suc k)
  have "\<forall>j. nombre_propia k j \<notin> fst ` set (registro_propias p k)"
    using fst_registro_propias [of p k] by (auto simp: nombre_propia_inj)
  then show ?case
    by (simp add: Suc.IH resistencias_paso_malla) (simp add: registro_propias_def)
qed

lemma resistencias_paso_compartida:
  "resistencias (paso_compartida i j r st) =
     (if 0 < r
      then AList.update (nombre_compartida i j) \<lparr>valor = r, topologia = Mallas (int i) (int j)\<rparr>
             (resistencias st)
      else resistencias st)"
  by (simp add: paso_compartida_def Let_def)

lemma resistencias_fold_compartida:
  assumes "distinct ps" "\<forall>(i, j) \<in> set ps. nombre_compartida i j \<notin> fst ` set (resistencias st)"
  shows "resistencias (fold (\<lambda>(i, j). paso_compartida i j (c i j)) ps st)
       = resistencias st
         @ map (\<lambda>(i, j). (nombre_compartida i j,
                           \<lparr>valor = c i j, topologia = Mallas (int i) (int j)\<rparr>))
             (filter (\<lambda>(i, j). 0 < c i j) ps)"
  using assms
proof (induction ps arbitrary: st)
  case Nil
  show ?case by simp
next
  case (Cons x ps)
  obtain i j where x: "x = (i, j)" by (cases x)
  let ?st = "paso_compartida i j (c i j) st"
  from Cons.prems x have fresh: "nombre_compartida i j \<notin> fst ` set (resistencias st)"
    by simp
  have r: "resistencias ?st =
      (if 0 < c i j
       then resistencias st
            @ [(nombre_compartida i j, \<lparr>valor = c i j, topologia = Mallas (int i) (int j)\<rparr>)]
       else resistencias st)"
    by (simp add: resistencias_paso_compartida update_nuevo [OF fresh])
  have "distinct ps" using Cons.prems by simp
  moreover have "\<forall>(i', j') \<in> set ps. nombre_compartida i' j' \<notin> fst ` set (resistencias ?st)"
    using Cons.prems x by (auto simp: r nombre_compartida_inj)
  ultimately have "resistencias (fold (\<lambda>(i, j). paso_compartida i j (c i j)) ps ?st)
       = resistencias ?st
         @ map (\<lambda>(i, j). (nombre_compartida i j,
                           \<lparr>valor = c i j, topologia = Mallas (int i) (int j)\<rparr>))
             (filter (\<lambda>(i, j). 0 < c i j) ps)"
    by (rule Cons.IH)
  then show ?case
    by (simp add: x r)
qed

lemma distinct_concat_pares:
  "distinct xs \<Longrightarrow> (\<And>i. i \<in> set xs \<Longrightarrow> distinct (h i)) \<Longrightarrow>
   distinct (concat (map (\<lambda>i. map (Pair i) (h i)) xs))"
  by (induction xs) (auto simp: distinct_map inj_on_def)

lemma distinct_pares: "distinct (pares N)"
  unfolding pares_def by (rule distinct_concat_pares) simp_all

lemma resistencias_construir:
  "resistencias (construir N f p c) = registro_propias p N @ registro_compartidas c N"
proof -
  have "\<forall>(i, j) \<in> set (pares N). nombre_compartida i j \<notin> fst ` set (registro_propias p N)"
    using fst_registro_propias [of p N] nombres_distintos by (auto simp: eq_commute)
  then show ?thesis
    unfolding construir_pares registro_compartidas_def
    by (simp add: resistencias_fold_compartida distinct_pares resistencias_mallas)
qed

lemma sin_entrada_compartida:
  assumes "c i j = 0"
  shows "nombre_compartida i j \<notin> fst ` set (resistencias (construir N f p c))"
proof
  assume "nombre_compartida i j \<in> fst ` set (resistencias (construir N f p c))"
  then consider "nombre_compartida i j \<in> fst ` set (registro_propias p N)"
    | "nombre_compartida i j \<in> fst ` set (registro_compartidas c N)"
    by (auto simp: resistencias_construir)
  then show False
  proof cases
    case 1
    with fst_registro_propias [of p N] nombres_distintos show False
      by (auto simp: eq_commute)
  next
    case 2
    then obtain i' j' where "nombre_compartida i j = nombre_compartida i' j'" "0 < c i' j'"
      by (auto simp: registro_compartidas_def)
    with assms show False by (simp add: nombre_compartida_inj)
  qed
qed

text \<open>The resolver's output has an entry for the names of the registry and for no other.\<close>

lemma claves_calcular_potencia:
  "fst ` set (calcular_potencia reg I) = fst ` set reg"
proof -
  have "fst ` set (fold (\<lambda>(nombre, dato) res. AList.update nombre (resultado_de dato I) res) reg acc)
        = fst ` set reg \<union> fst ` set acc" for acc
    by (induction reg arbitrary: acc) (auto simp: dom_update split_def)
  then show ?thesis by (simp add: calcular_potencia_def)
qed


subsection \<open>The sums over the registry\<close>

lemma suma_filtrada:
  "sum_list (map g (filter P (map F (filter Q ps))))
   = (\<Sum>x\<leftarrow>ps. if Q x \<and> P (F x) then g (F x) else 0)"
  by (induction ps) simp_all

lemma suma_indicador_upt:
  "(\<Sum>i\<leftarrow>[0..<N]. if i = a then (x :: real) else 0) = (if a < N then x else 0)"
  by (induction N) auto

lemma suma_indicador_distinct:
  "distinct ps \<Longrightarrow> (\<Sum>x\<leftarrow>ps. if x = y then (f x :: real) else 0) = (if y \<in> set ps then f y else 0)"
  by (induction ps) auto

lemma suma_entradas_propias:
  "(\<Sum>x\<leftarrow>filter (\<lambda>x. G (snd x)) (entradas_propias i j rs). valor (snd x))
   = (\<Sum>r\<leftarrow>rs. if G \<lparr>valor = r, topologia = Malla (int i)\<rparr> then r else 0)"
  unfolding entradas_propias_def
  by (induction rs arbitrary: j) simp_all

lemma suma_registro_propias:
  "(\<Sum>x\<leftarrow>filter (\<lambda>x. G (snd x)) (registro_propias p N). valor (snd x))
   = (\<Sum>i\<leftarrow>[0..<N]. \<Sum>r\<leftarrow>p i. if G \<lparr>valor = r, topologia = Malla (int i)\<rparr> then r else 0)"
  unfolding registro_propias_def
  by (induction N) (simp_all add: suma_entradas_propias)

lemma suma_registro_compartidas:
  "(\<Sum>x\<leftarrow>filter (\<lambda>x. G (snd x)) (registro_compartidas c N). valor (snd x))
   = (\<Sum>(i, j)\<leftarrow>pares N.
        if 0 < c i j \<and> G \<lparr>valor = c i j, topologia = Mallas (int i) (int j)\<rparr> then c i j else 0)"
  unfolding registro_compartidas_def
  by (induction "pares N") (simp_all add: suma_filtrada split_def cong: if_cong)

lemma suma_ceros: "(\<Sum>x\<leftarrow>xs. (0 :: real)) = 0"
  by (induction xs) simp_all

lemma suma_construir:
  "(\<Sum>x\<leftarrow>filter (\<lambda>x. G (snd x)) (resistencias (construir N f p c)). valor (snd x))
   = (\<Sum>i\<leftarrow>[0..<N]. \<Sum>r\<leftarrow>p i. if G \<lparr>valor = r, topologia = Malla (int i)\<rparr> then r else 0)
     + (\<Sum>(i, j)\<leftarrow>pares N.
          if 0 < c i j \<and> G \<lparr>valor = c i j, topologia = Mallas (int i) (int j)\<rparr> then c i j else 0)"
  by (simp add: resistencias_construir suma_registro_propias [of G]
      suma_registro_compartidas [of G])

lemma suma_exclusivas_construir:
  assumes "a < N"
  shows "suma_exclusivas (resistencias (construir N f p c)) a = sum_list (p a)"
proof -
  have "(\<Sum>i\<leftarrow>[0..<N]. \<Sum>r\<leftarrow>p i. if int i = int a then r else 0)
      = (\<Sum>i\<leftarrow>[0..<N]. if i = a then sum_list (p a) else 0)"
    by (rule arg_cong [where f = sum_list], rule map_cong) (auto simp: suma_ceros)
  with assms have "(\<Sum>i\<leftarrow>[0..<N]. \<Sum>r\<leftarrow>p i. if int i = int a then r else 0) = sum_list (p a)"
    by (simp add: suma_indicador_upt)
  then show ?thesis
    unfolding suma_exclusivas_def comp_def split_def
    by (simp add: suma_construir [of "\<lambda>d. topologia d = Malla (int a)"] suma_ceros split_def)
qed

lemma suma_compartidas_de_construir:
  "suma_compartidas_de (resistencias (construir N f p c)) a
   = (\<Sum>(i, j)\<leftarrow>pares N. if i = a \<or> j = a then positiva (c i j) else 0)"
proof -
  have "(\<Sum>(i, j)\<leftarrow>pares N. if 0 < c i j \<and> (int i = int a \<or> int j = int a) \<and> 0 < c i j
                          then c i j else 0)
      = (\<Sum>(i, j)\<leftarrow>pares N. if i = a \<or> j = a then positiva (c i j) else 0)"
    by (rule arg_cong [where f = sum_list], rule map_cong) (auto simp: positiva_def)
  then show ?thesis
    unfolding suma_compartidas_de_def comp_def split_def
    by (simp add: suma_construir [of "\<lambda>d. toca a (topologia d) \<and> 0 < valor d"] suma_ceros
        split_def)
qed

lemma suma_compartidas_entre_construir:
  assumes "a < b" "b < N"
  shows "suma_compartidas_entre (resistencias (construir N f p c)) a b = positiva (c a b)"
    and "suma_compartidas_entre (resistencias (construir N f p c)) b a = positiva (c a b)"
proof -
  have "(\<Sum>(i, j)\<leftarrow>pares N. if 0 < c i j \<and> une a b (Mallas (int i) (int j)) \<and> 0 < c i j
                          then c i j else 0)
      = (\<Sum>x\<leftarrow>pares N. if x = (a, b) then positiva (c (fst x) (snd x)) else 0)"
    using assms
    by (intro arg_cong [where f = sum_list] map_cong)
       (auto simp: positiva_def set_pares split: if_splits)
  also have "\<dots> = positiva (c a b)"
    using assms by (simp add: suma_indicador_distinct [OF distinct_pares] set_pares)
  finally have e: "(\<Sum>(i, j)\<leftarrow>pares N.
        if 0 < c i j \<and> une a b (Mallas (int i) (int j)) \<and> 0 < c i j then c i j else 0)
      = positiva (c a b)" .
  have u: "une b a t = une a b t" for t by (cases t) auto
  show ab: "suma_compartidas_entre (resistencias (construir N f p c)) a b = positiva (c a b)"
    unfolding suma_compartidas_entre_def comp_def split_def
    using e
    by (simp add: suma_construir [of "\<lambda>d. une a b (topologia d) \<and> 0 < valor d"] suma_ceros
        split_def)
  show "suma_compartidas_entre (resistencias (construir N f p c)) b a = positiva (c a b)"
    using ab by (simp add: suma_compartidas_entre_def u)
qed

subsection \<open>The states between the contributions\<close>

lemma inv_sim_tras_mallas:
  "k \<le> N \<Longrightarrow> inv_sim N (tras_mallas N f p k)"
  unfolding tras_mallas_def
  by (rule fold_invariante)
     (auto simp: inv_sim_def cuadrada_inicial simetrica_inicial cuadrada_paso_malla
        simetrica_paso_malla)

lemma inv_sim_tras_pares: "inv_sim N (tras_pares N f p c k)"
  unfolding tras_pares_def
proof (rule fold_invariante)
  show "inv_sim N (tras_mallas N f p N)"
    by (rule inv_sim_tras_mallas) simp
next
  fix x st assume x: "x \<in> set (take k (pares N))" and inv: "inv_sim N st"
  obtain i j where ij: "x = (i, j)" by (cases x)
  from x have "x \<in> set (pares N)" by (rule in_set_takeD)
  with ij have "i < N" "j < N" "i \<noteq> j" by (auto simp: set_pares)
  with inv show "inv_sim N ((case x of (i, j) \<Rightarrow> paso_compartida i j (c i j)) st)"
    by (simp add: ij inv_sim_def cuadrada_paso_compartida simetrica_paso_compartida)
qed

lemma construir_tras_pares:
  "construir N f p c = tras_pares N f p c (length (pares N))"
  by (simp add: construir_pares tras_pares_def tras_mallas_def)

subsection \<open>The scenario\<close>

lemma upt_2: "[0..<2] = [0, 1]" "[Suc 0..<2] = [1]" "[2..<2] = []"
  by (simp_all add: upt_rec)

lemma tras_mallas_ej:
  "tras_mallas 2 fuentes_ej propias_ej 2
   = \<lparr>matriz_R = [[2, 0], [0, 3]], vector_V = [10, 0],
      resistencias = [(''R1_p1'', \<lparr>valor = 2, topologia = Malla 0\<rparr>),
                      (''R2_p1'', \<lparr>valor = 3, topologia = Malla 1\<rparr>)]\<rparr>"
  by (simp add: tras_mallas_def upt_2 estado_inicial_def paso_malla_def mat_set_def
      fuentes_ej_def propias_ej_def nombre_propia_def str_nat.simps digito_def
      numeral_2_eq_2)

lemma construir_ej:
  "construir 2 fuentes_ej propias_ej compartidas_ej
   = \<lparr>matriz_R = [[3, - 1], [- 1, 4]], vector_V = [10, 0],
      resistencias = [(''R1_p1'', \<lparr>valor = 2, topologia = Malla 0\<rparr>),
                      (''R2_p1'', \<lparr>valor = 3, topologia = Malla 1\<rparr>),
                      (''R_c1-2'', \<lparr>valor = 1, topologia = Mallas 0 1\<rparr>)]\<rparr>"
proof -
  have "pares 2 = [(0, 1)]"
    by (simp add: pares_def upt_2)
  then show ?thesis
    by (simp add: construir_tras_pares tras_pares_def tras_mallas_ej paso_compartida_def
        mat_set_def compartidas_ej_def nombre_compartida_def str_nat.simps digito_def)
qed

subsection \<open>The entries of the matrix\<close>

text \<open>
  Claim C1. In the matrix that \<^verbatim>\<open>main\<close> builds, together with the registry, from any
  typed input, the diagonal entry of mesh \<open>i\<close> is the sum of the values of the registered
  resistors of mesh \<open>i\<close> alone plus the sum of the positive registered shared resistors
  that touch mesh \<open>i\<close>, and the entry \<open>(i, j)\<close> off the diagonal is minus the sum of the
  positive registered shared resistors between mesh \<open>i\<close> and mesh \<open>j\<close>.
\<close>

theorem matrix_entries_are_sums_over_registry:
  assumes "i < N" "j < N"
  shows "matriz_R (construir N f p c) ! i ! i
           = suma_exclusivas (resistencias (construir N f p c)) i
             + suma_compartidas_de (resistencias (construir N f p c)) i
       \<and> (i \<noteq> j \<longrightarrow>
            matriz_R (construir N f p c) ! i ! j
              = - suma_compartidas_entre (resistencias (construir N f p c)) i j)"
proof -
  have "matriz_R (construir N f p c) ! i ! j
          = - suma_compartidas_entre (resistencias (construir N f p c)) i j" if "i \<noteq> j"
  proof (cases "i < j")
    case True
    with assms that show ?thesis
      by (simp add: construir_fuera suma_compartidas_entre_construir)
  next
    case False
    with that have "j < i" by simp
    with assms that show ?thesis
      by (simp add: construir_fuera suma_compartidas_entre_construir min_def max_def)
  qed
  with assms show ?thesis
    by (simp add: construir_diag suma_exclusivas_construir suma_compartidas_de_construir)
qed

theorem matrix_entries_are_sums_over_registry_witness:
  "(0 :: nat) < 2 \<and> (1 :: nat) < 2
   \<and> suma_exclusivas (resistencias (construir 2 fuentes_ej propias_ej compartidas_ej)) 0 = 2
   \<and> suma_compartidas_de (resistencias (construir 2 fuentes_ej propias_ej compartidas_ej)) 0 = 1
   \<and> matriz_R (construir 2 fuentes_ej propias_ej compartidas_ej) ! 0 ! 0
     = suma_exclusivas (resistencias (construir 2 fuentes_ej propias_ej compartidas_ej)) 0
       + suma_compartidas_de (resistencias (construir 2 fuentes_ej propias_ej compartidas_ej)) 0
   \<and> suma_compartidas_entre (resistencias (construir 2 fuentes_ej propias_ej compartidas_ej)) 0 1
     = 1
   \<and> matriz_R (construir 2 fuentes_ej propias_ej compartidas_ej) ! 0 ! 1
     = - suma_compartidas_entre
           (resistencias (construir 2 fuentes_ej propias_ej compartidas_ej)) 0 1"
  using matrix_entries_are_sums_over_registry [of 0 2 1 fuentes_ej propias_ej compartidas_ej]
  by (simp add: construir_ej suma_exclusivas_def suma_compartidas_de_def
      suma_compartidas_entre_def)

subsection \<open>Symmetry\<close>

text \<open>
  Claim C2. The matrix that \<^verbatim>\<open>main\<close> builds is symmetric, and so is the matrix after
  every single contribution: after each turn of the first loop and after each turn of the
  second loop (the builder's result is the state after the last of them).
\<close>

theorem built_matrix_is_symmetric_after_every_step:
  "simetrica N (matriz_R (construir N f p c))
   \<and> (\<forall>k\<le>N. simetrica N (matriz_R (tras_mallas N f p k)))
   \<and> (\<forall>k\<le>length (pares N). simetrica N (matriz_R (tras_pares N f p c k)))
   \<and> construir N f p c = tras_pares N f p c (length (pares N))"
proof -
  have "simetrica N (matriz_R (construir N f p c))"
    using inv_sim_construir [of N f p c] by (simp add: inv_sim_def)
  moreover have "simetrica N (matriz_R (tras_mallas N f p k))" if "k \<le> N" for k
    using inv_sim_tras_mallas [OF that, of f p] by (simp add: inv_sim_def)
  moreover have "simetrica N (matriz_R (tras_pares N f p c k))" for k
    using inv_sim_tras_pares [of N f p c k] by (simp add: inv_sim_def)
  ultimately show ?thesis
    using construir_tras_pares [of N f p c] by simp
qed

theorem built_matrix_is_symmetric_after_every_step_witness:
  "(1 :: nat) \<le> 2 \<and> 1 \<le> length (pares 2)
   \<and> matriz_R (construir 2 fuentes_ej propias_ej compartidas_ej) = [[3, - 1], [- 1, 4]]
   \<and> simetrica 2 (matriz_R (construir 2 fuentes_ej propias_ej compartidas_ej))
   \<and> simetrica 2 (matriz_R (tras_mallas 2 fuentes_ej propias_ej 1))
   \<and> simetrica 2 (matriz_R (tras_pares 2 fuentes_ej propias_ej compartidas_ej 1))"
proof -
  note t = built_matrix_is_symmetric_after_every_step [of 2 fuentes_ej propias_ej compartidas_ej]
  have l: "length (pares 2) = 1"
    by (simp add: pares_def upt_2)
  from t have "simetrica 2 (matriz_R (construir 2 fuentes_ej propias_ej compartidas_ej))"
    by (rule conjunct1)
  moreover from t have "simetrica 2 (matriz_R (tras_mallas 2 fuentes_ej propias_ej 1))"
    by simp
  moreover from t l
  have "simetrica 2 (matriz_R (tras_pares 2 fuentes_ej propias_ej compartidas_ej 1))"
    by simp
  ultimately show ?thesis
    by (simp add: l construir_ej)
qed

subsection \<open>A shared value of zero\<close>

text \<open>
  Claim C8. The turn of the second loop for a shared value of exactly \<open>0\<close> leaves the
  whole state as it was: the matrix (the four entries it would touch among them), the
  vector and the registry; it is the ordinary return of the step, no error. In the result
  of the build, when the value typed for the pair \<open>i < j\<close> is \<open>0\<close>, the entries \<open>(i, j)\<close>
  and \<open>(j, i)\<close> are \<open>0\<close>, the registry has no resistor under the name of the pair, and the
  resolver's output has no component entry for it.
\<close>

theorem zero_shared_value_contributes_nothing:
  "paso_compartida i j 0 st = st
   \<and> (i < j \<and> j < N \<and> c i j = 0 \<longrightarrow>
        matriz_R (construir N f p c) ! i ! j = 0
        \<and> matriz_R (construir N f p c) ! j ! i = 0
        \<and> nombre_compartida i j \<notin> fst ` set (resistencias (construir N f p c))
        \<and> map_of (calcular_potencia (resistencias (construir N f p c)) I) (nombre_compartida i j)
          = None)"
proof -
  have "map_of (calcular_potencia (resistencias (construir N f p c)) I) (nombre_compartida i j)
          = None" if "c i j = 0"
    using sin_entrada_compartida [of c i j N f p] that
    by (simp add: map_of_eq_None_iff claves_calcular_potencia)
  moreover have "matriz_R (construir N f p c) ! i ! j = 0" "matriz_R (construir N f p c) ! j ! i = 0"
    if "i < j" "j < N" "c i j = 0"
    using that construir_fuera [of i N j f p c] construir_fuera [of j N i f p c]
    by (simp_all add: positiva_def min_def max_def)
  ultimately show ?thesis
    using sin_entrada_compartida [of c i j N f p]
    by (simp add: paso_compartida_def)
qed

theorem zero_shared_value_contributes_nothing_witness:
  "(0 :: nat) < 1 \<and> (1 :: nat) < 2 \<and> (\<lambda>i j. 0 :: real) 0 1 = (0 :: real)
   \<and> matriz_R (construir 2 fuentes_ej propias_ej (\<lambda>i j. 0)) = [[2, 0], [0, 3]]
   \<and> matriz_R (construir 2 fuentes_ej propias_ej (\<lambda>i j. 0)) ! 0 ! 1 = 0
   \<and> matriz_R (construir 2 fuentes_ej propias_ej (\<lambda>i j. 0)) ! 1 ! 0 = 0
   \<and> map_of (calcular_potencia (resistencias (construir 2 fuentes_ej propias_ej (\<lambda>i j. 0)))
               [5, 0]) (nombre_compartida 0 1) = None"
  using zero_shared_value_contributes_nothing [of 0 1 "tras_mallas 2 fuentes_ej propias_ej 2" 2 "\<lambda>i j. 0" fuentes_ej propias_ej
      "[5, 0]"]
  by (simp add: construir_tras_pares tras_pares_def pares_def upt_2 paso_compartida_def
      tras_mallas_ej)

section \<open>The whole run on the scenario\<close>

lemma solve_ej:
  "solve [[3, - 1], [- 1, 4]] [10, 0] = Inr [40 / 11, 10 / 11]"
  by (simp add: solve_def gauss.simps intercambiar_def Let_def)

lemma calcular_ej:
  "calcular_potencia (resistencias (construir 2 fuentes_ej propias_ej compartidas_ej))
     [40 / 11, 10 / 11]
   = [(''R1_p1'', \<lparr>R = 2, Corriente = Numero (40 / 11), Potencia = Numero (3200 / 121)\<rparr>),
      (''R2_p1'', \<lparr>R = 3, Corriente = Numero (10 / 11), Potencia = Numero (300 / 121)\<rparr>),
      (''R_c1-2'', \<lparr>R = 1, Corriente = Numero (30 / 11), Potencia = Numero (900 / 121)\<rparr>)]"
  by (simp add: construir_ej calcular_potencia_def resultado_de_def indexar_def power2_eq_square)

lemma main_ej:
  "main 2 fuentes_ej propias_ej compartidas_ej
   = Inr \<lparr>corrientes = [40 / 11, 10 / 11],
          componentes =
            [(''R1_p1'', \<lparr>R = 2, Corriente = Numero (40 / 11), Potencia = Numero (3200 / 121)\<rparr>),
             (''R2_p1'', \<lparr>R = 3, Corriente = Numero (10 / 11), Potencia = Numero (300 / 121)\<rparr>),
             (''R_c1-2'', \<lparr>R = 1, Corriente = Numero (30 / 11), Potencia = Numero (900 / 121)\<rparr>)],
          total = 400 / 11\<rparr>"
  using calcular_ej
  by (simp add: main_def solve_ej construir_ej celda_texto_def potencia_total_def)

lemma unica_ej:
  "(producto [3, - 1] [x, y] = 10 \<and> producto [- 1, 4] [x, y] = 0)
   = (x = 40 / 11 \<and> y = 10 / 11)"
  by (auto simp: field_simps)

lemma aprox_ej:
  "\<bar>40 / 11 - 3.636\<bar> < (0.0005 :: real)" "\<bar>10 / 11 - 0.909\<bar> < (0.0005 :: real)"
  "\<bar>30 / 11 - 2.727\<bar> < (0.0005 :: real)" "\<bar>900 / 121 - 7.438\<bar> < (0.0005 :: real)"
  by simp_all

text \<open>
  Claim C9. On the scenario the builder produces the matrix \<open>[[3, -1], [-1, 4]]\<close> and the
  vector \<open>[10, 0]\<close>; the solve yields the mesh currents \<open>40/11\<close> and \<open>10/11\<close>, which are
  the only solution of the system and lie within \<open>0.0005\<close> of \<open>3.636\<close> and \<open>0.909\<close>; the
  resolver reports for the shared resistor the current \<open>30/11\<close> and the power \<open>900/121\<close>,
  within \<open>0.0005\<close> of \<open>2.727\<close> and \<open>7.438\<close>; and the run as a whole returns these
  currents, the three component results and the total power \<open>400/11\<close>.
\<close>

theorem end_to_end_two_mesh_scenario:
  "matriz_R (construir 2 fuentes_ej propias_ej compartidas_ej) = [[3, - 1], [- 1, 4]]
   \<and> vector_V (construir 2 fuentes_ej propias_ej compartidas_ej) = [10, 0]
   \<and> solve [[3, - 1], [- 1, 4]] [10, 0] = Inr [40 / 11, 10 / 11]
   \<and> ((producto [3, - 1] [x, y] = 10 \<and> producto [- 1, 4] [x, y] = 0)
        = (x = 40 / 11 \<and> y = 10 / 11))
   \<and> \<bar>40 / 11 - 3.636\<bar> < (0.0005 :: real) \<and> \<bar>10 / 11 - 0.909\<bar> < (0.0005 :: real)
   \<and> map_of (calcular_potencia (resistencias (construir 2 fuentes_ej propias_ej compartidas_ej))
               [40 / 11, 10 / 11]) ''R_c1-2''
     = Some \<lparr>R = 1, Corriente = Numero (30 / 11), Potencia = Numero (900 / 121)\<rparr>
   \<and> \<bar>30 / 11 - 2.727\<bar> < (0.0005 :: real) \<and> \<bar>900 / 121 - 7.438\<bar> < (0.0005 :: real)
   \<and> main 2 fuentes_ej propias_ej compartidas_ej
     = Inr \<lparr>corrientes = [40 / 11, 10 / 11],
            componentes =
              [(''R1_p1'',
                \<lparr>R = 2, Corriente = Numero (40 / 11), Potencia = Numero (3200 / 121)\<rparr>),
               (''R2_p1'',
                \<lparr>R = 3, Corriente = Numero (10 / 11), Potencia = Numero (300 / 121)\<rparr>),
               (''R_c1-2'',
                \<lparr>R = 1, Corriente = Numero (30 / 11), Potencia = Numero (900 / 121)\<rparr>)],
            total = 400 / 11\<rparr>"
proof -
  have "matriz_R (construir 2 fuentes_ej propias_ej compartidas_ej) = [[3, - 1], [- 1, 4]]"
    and "vector_V (construir 2 fuentes_ej propias_ej compartidas_ej) = [10, 0]"
    by (simp_all add: construir_ej)
  moreover have "map_of (calcular_potencia
                   (resistencias (construir 2 fuentes_ej propias_ej compartidas_ej))
                   [40 / 11, 10 / 11]) ''R_c1-2''
     = Some \<lparr>R = 1, Corriente = Numero (30 / 11), Potencia = Numero (900 / 121)\<rparr>"
    by (simp add: calcular_ej)
  ultimately show ?thesis
    using solve_ej unica_ej [of x y] aprox_ej main_ej by simp
qed

section \<open>The linear solver\<close>

lemma indice_pivote_menor: "xs \<noteq> [] \<Longrightarrow> indice_pivote xs < length xs"
  by (induction xs) (auto simp: Let_def)

lemma indice_pivote_max: "i < length xs \<Longrightarrow> \<bar>xs ! i\<bar> \<le> \<bar>xs ! indice_pivote xs\<bar>"
proof (induction xs arbitrary: i)
  case Nil
  then show ?case by simp
next
  case (Cons x xs)
  show ?case
  proof (cases i)
    case 0
    then show ?thesis by (simp add: Let_def)
  next
    case (Suc j)
    with Cons.prems have j: "j < length xs" by simp
    then have "xs \<noteq> []" by auto
    with Cons.IH [OF j] Suc show ?thesis
      by (simp add: Let_def)
  qed
qed

lemma producto_ceros: "producto xs (replicate n 0) = 0"
proof (induction xs arbitrary: n)
  case Nil
  show ?case by simp
next
  case (Cons x xs)
  show ?case by (cases n) (simp_all add: Cons.IH)
qed

lemma producto_map2:
  "length cs = length as \<Longrightarrow>
   producto (map2 (\<lambda>x y. x - k * y) cs as) v = producto cs v - k * producto as v"
proof (induction cs as arbitrary: v rule: list_induct2)
  case Nil
  show ?case by simp
next
  case (Cons c cs a as)
  show ?case by (cases v) (simp_all add: Cons.IH, simp add: algebra_simps)
qed


lemma set_intercambiar: "k < length xs \<Longrightarrow> set (intercambiar xs k) = set xs"
  unfolding intercambiar_def by (rule set_swap) auto

lemma gauss_paso:
  assumes "bien_formado (Suc n) filas"
  shows "\<exists>a as bp resto.
           set ((a # as, bp) # resto) = set filas
           \<and> length as = n \<and> length resto = n
           \<and> (\<forall>f \<in> set filas. \<bar>cabeza f\<bar> \<le> \<bar>a\<bar>)
           \<and> gauss filas =
               (if a = 0 then Inl SingularSystemError
                else case gauss (map (eliminar a as bp) resto) of
                       Inl e \<Rightarrow> Inl e
                     | Inr xs \<Rightarrow> Inr ((bp - producto as xs) / a # xs))"
proof -
  from assms obtain f fs where filas: "filas = f # fs"
    by (cases filas) (auto simp: bien_formado_def)
  define k where "k = indice_pivote (map cabeza filas)"
  have k: "k < length filas"
    unfolding k_def using indice_pivote_menor [of "map cabeza filas"] filas by simp
  have len: "length (intercambiar filas k) = Suc n"
    using assms by (simp add: intercambiar_def bien_formado_def)
  then obtain p resto where perm: "intercambiar filas k = p # resto"
    by (cases "intercambiar filas k") auto
  with len have resto: "length resto = n" by simp
  have s: "set (p # resto) = set filas"
    using set_intercambiar [OF k] perm by simp
  then have "p \<in> set filas" by auto
  with assms have "length (fst p) = Suc n" by (simp add: bien_formado_def)
  then obtain a as bp where p: "p = (a # as, bp)" and as: "length as = n"
    by (cases p, cases "fst p") auto
  have "p = filas ! k"
    using perm k filas by (cases k) (simp_all add: intercambiar_def)
  with p have "filas ! k = (a # as, bp)" by simp
  then have a: "a = map cabeza filas ! k"
    using k by simp
  have max: "\<bar>cabeza g\<bar> \<le> \<bar>a\<bar>" if "g \<in> set filas" for g
  proof -
    from that obtain i where "i < length filas" "g = filas ! i"
      by (auto simp: in_set_conv_nth)
    then show ?thesis
      using indice_pivote_max [of i "map cabeza filas"] unfolding a k_def by simp
  qed
  have "gauss filas =
               (if a = 0 then Inl SingularSystemError
                else case gauss (map (eliminar a as bp) resto) of
                       Inl e \<Rightarrow> Inl e
                     | Inr xs \<Rightarrow> Inr ((bp - producto as xs) / a # xs))"
    unfolding filas gauss.simps(2) Let_def
    using perm p unfolding filas k_def by simp
  with s p as resto max show ?thesis by blast
qed

lemma producto_nulo: "\<forall>v \<in> set ys. v = 0 \<Longrightarrow> producto xs ys = 0"
proof -
  assume "\<forall>v \<in> set ys. v = 0"
  then have "ys = replicate (length ys) 0"
    by (simp add: replicate_length_same)
  then show ?thesis
    using producto_ceros [of xs "length ys"] by simp
qed

lemma eliminar_fila:
  assumes "length cs = length as"
  shows "producto (fst (eliminar a as bp (c # cs, bc))) ys
           = producto cs ys - c / a * producto as ys"
    and "snd (eliminar a as bp (c # cs, bc)) = bc - c / a * bp"
  using producto_map2 [OF assms, of "c / a" ys] by simp_all

lemma gauss_correcto:
  "bien_formado n filas \<Longrightarrow>
   (case gauss filas of
      Inl e \<Rightarrow> e = SingularSystemError
               \<and> (\<exists>x. length x = n \<and> (\<exists>v \<in> set x. v \<noteq> 0) \<and> anula filas x)
    | Inr x \<Rightarrow> length x = n \<and> resuelve filas x
               \<and> (\<forall>y. length y = n \<and> anula filas y \<longrightarrow> (\<forall>v \<in> set y. v = 0)))"
proof (induction n arbitrary: filas)
  case 0
  then have "filas = []" by (simp add: bien_formado_def)
  then show ?case by (simp add: resuelve_def anula_def)
next
  case (Suc n)
  from gauss_paso [OF Suc.prems] obtain a as bp resto
    where s: "set ((a # as, bp) # resto) = set filas"
      and as: "length as = n" and resto: "length resto = n"
      and max: "\<forall>f \<in> set filas. \<bar>cabeza f\<bar> \<le> \<bar>a\<bar>"
      and g: "gauss filas =
               (if a = 0 then Inl SingularSystemError
                else case gauss (map (eliminar a as bp) resto) of
                       Inl e \<Rightarrow> Inl e
                     | Inr xs \<Rightarrow> Inr ((bp - producto as xs) / a # xs))"
    by blast
  let ?red = "map (eliminar a as bp) resto"
  have forma: "\<exists>c cs bc. f = (c # cs, bc) \<and> length cs = n" if "f \<in> set filas" for f
  proof -
    from that Suc.prems have "length (fst f) = Suc n" by (simp add: bien_formado_def)
    then show ?thesis by (cases f, cases "fst f") auto
  qed
  have en_resto: "f \<in> set filas" if "f \<in> set resto" for f
    using that s by auto
  have bf: "bien_formado n ?red"
  proof -
    have "length (fst (eliminar a as bp f)) = n" if "f \<in> set resto" for f
      using forma [OF en_resto [OF that]] as by auto
    with resto show ?thesis by (simp add: bien_formado_def)
  qed
  note IH = Suc.IH [OF bf]
  have red_anula: "anula ?red ys \<longleftrightarrow>
      (\<forall>c cs bc. (c # cs, bc) \<in> set resto \<longrightarrow> producto cs ys - c / a * producto as ys = 0)"
    for ys
  proof
    assume h: "anula ?red ys"
    show "\<forall>c cs bc. (c # cs, bc) \<in> set resto \<longrightarrow> producto cs ys - c / a * producto as ys = 0"
    proof (intro allI impI)
      fix c cs bc assume m: "(c # cs, bc) \<in> set resto"
      with forma [OF en_resto [OF m]] as have l: "length cs = length as" by simp
      from h m have "producto (fst (eliminar a as bp (c # cs, bc))) ys = 0"
        unfolding anula_def by (metis (no_types, lifting) image_eqI set_map)
      then show "producto cs ys - c / a * producto as ys = 0"
        unfolding eliminar_fila(1) [OF l] .
    qed
  next
    assume h: "\<forall>c cs bc. (c # cs, bc) \<in> set resto \<longrightarrow> producto cs ys - c / a * producto as ys = 0"
    show "anula ?red ys"
      unfolding anula_def
    proof
      fix r assume "r \<in> set ?red"
      then obtain f where f: "f \<in> set resto" and r: "r = eliminar a as bp f" by auto
      from forma [OF en_resto [OF f]] obtain c cs bc where
        ff: "f = (c # cs, bc)" and "length cs = n" by blast
      with as have l: "length cs = length as" by simp
      from h f ff have "producto cs ys - c / a * producto as ys = 0" by blast
      then show "producto (fst r) ys = 0"
        unfolding r ff eliminar_fila(1) [OF l] .
    qed
  qed
  show ?case
  proof (cases "a = 0")
    case True
    let ?x = "1 # replicate n (0 :: real)"
    have "anula filas ?x"
      unfolding anula_def
    proof
      fix f assume f: "f \<in> set filas"
      from forma [OF f] obtain c cs bc where ff: "f = (c # cs, bc)" by blast
      from max f True have "cabeza f = 0" by auto
      with ff show "producto (fst f) ?x = 0" by (simp add: producto_ceros)
    qed
    then have "\<exists>x. length x = Suc n \<and> (\<exists>v \<in> set x. v \<noteq> 0) \<and> anula filas x"
      by (intro exI [of _ ?x]) simp
    with True g show ?thesis by simp
  next
    case False
    note a = this
    show ?thesis
    proof (cases "gauss ?red")
      case (Inl e)
      with IH obtain x' where e: "e = SingularSystemError" and lx: "length x' = n"
        and nz: "\<exists>v \<in> set x'. v \<noteq> 0" and an: "anula ?red x'"
        by auto
      let ?x = "(- producto as x' / a) # x'"
      have "anula filas ?x"
        unfolding anula_def
      proof
        fix f assume "f \<in> set filas"
        with s consider "f = (a # as, bp)" | "f \<in> set resto" by auto
        then show "producto (fst f) ?x = 0"
        proof cases
          case 1
          with a show ?thesis by simp
        next
          case 2
          from forma [OF en_resto [OF 2]] obtain c cs bc where ff: "f = (c # cs, bc)" by blast
          with 2 an have "producto cs x' - c / a * producto as x' = 0"
            unfolding red_anula by blast
          with a show ?thesis by (simp add: ff field_simps)
        qed
      qed
      with lx nz have "\<exists>x. length x = Suc n \<and> (\<exists>v \<in> set x. v \<noteq> 0) \<and> anula filas x"
        by (intro exI [of _ ?x]) auto
      with a g Inl e show ?thesis by simp
    next
      case (Inr xs)
      with IH have lx: "length xs = n" and res: "resuelve ?red xs"
        and tr: "\<And>y. length y = n \<Longrightarrow> anula ?red y \<Longrightarrow> \<forall>v \<in> set y. v = 0"
        by auto
      let ?x = "(bp - producto as xs) / a # xs"
      have "resuelve filas ?x"
        unfolding resuelve_def
      proof
        fix f assume "f \<in> set filas"
        with s consider "f = (a # as, bp)" | "f \<in> set resto" by auto
        then show "producto (fst f) ?x = snd f"
        proof cases
          case 1
          with a show ?thesis by simp
        next
          case 2
          from forma [OF en_resto [OF 2]] obtain c cs bc where
            ff: "f = (c # cs, bc)" and "length cs = n" by blast
          with as have l: "length cs = length as" by simp
          from 2 have "eliminar a as bp f \<in> set ?red" by simp
          with res have "producto (fst (eliminar a as bp f)) xs = snd (eliminar a as bp f)"
            unfolding resuelve_def by blast
          then have "producto cs xs - c / a * producto as xs = bc - c / a * bp"
            unfolding ff eliminar_fila [OF l] .
          with a show ?thesis by (simp add: ff field_simps)
        qed
      qed
      moreover have "\<forall>y. length y = Suc n \<and> anula filas y \<longrightarrow> (\<forall>v \<in> set y. v = 0)"
      proof (intro allI impI, elim conjE)
        fix y assume ly: "length y = Suc n" and an: "anula filas y"
        from ly obtain y0 ys where y: "y = y0 # ys" and lys: "length ys = n"
          by (cases y) auto
        from an s have piv: "a * y0 + producto as ys = 0"
          unfolding anula_def y by (metis fst_conv list.set_intros(1) producto.simps(1))
        have "anula ?red ys"
          unfolding red_anula
        proof (intro allI impI)
          fix c cs bc assume m: "(c # cs, bc) \<in> set resto"
          with an en_resto [OF m] have "c * y0 + producto cs ys = 0"
            unfolding anula_def y by (metis fst_conv producto.simps(1))
          with piv a show "producto cs ys - c / a * producto as ys = 0"
            by (simp add: field_simps) algebra
        qed
        from tr [OF lys this] have z: "\<forall>v \<in> set ys. v = 0" .
        then have "producto as ys = 0" by (rule producto_nulo)
        with piv a have "y0 = 0" by simp
        with z show "\<forall>v \<in> set y. v = 0" by (simp add: y)
      qed
      ultimately show ?thesis
        using a g Inr lx by simp
    qed
  qed
qed

lemma anula_zip:
  "length b = length a \<Longrightarrow> anula (zip a b) x \<longleftrightarrow> (\<forall>fila \<in> set a. producto fila x = 0)"
proof -
  assume l: "length b = length a"
  then have "fst ` set (zip a b) = set a"
    by (metis map_fst_zip set_map)
  then show ?thesis
    unfolding anula_def by (metis (no_types, lifting) image_iff)
qed

lemma resuelve_zip:
  "length a = length b \<Longrightarrow>
   resuelve (zip a b) x \<longleftrightarrow> map (\<lambda>fila. producto fila x) a = b"
  by (induction a b rule: list_induct2) (auto simp: resuelve_def)

lemma bien_formado_zip:
  "list_all (\<lambda>fila. length fila = length a) a \<Longrightarrow> length b = length a \<Longrightarrow>
   bien_formado (length a) (zip a b)"
  by (auto simp: bien_formado_def list_all_iff dest: set_zip_leftD)

lemma solve_correcto:
  assumes "list_all (\<lambda>fila. length fila = length a) a" and "length b = length a"
  shows "case solve a b of
           Inl e \<Rightarrow> e = SingularSystemError \<and> singular a
         | Inr x \<Rightarrow> \<not> singular a \<and> length x = length a
                     \<and> map (\<lambda>fila. producto fila x) a = b"
proof -
  from assms have s: "solve a b = gauss (zip a b)" by (simp add: solve_def)
  note c = gauss_correcto [OF bien_formado_zip [OF assms]]
  show ?thesis
  proof (cases "gauss (zip a b)")
    case (Inl e)
    with c assms(2) show ?thesis
      by (auto simp: s singular_def anula_zip)
  next
    case (Inr x)
    with c have lx: "length x = length a" and r: "resuelve (zip a b) x"
      and t: "\<forall>y. length y = length a \<and> anula (zip a b) y \<longrightarrow> (\<forall>v \<in> set y. v = 0)"
      by auto
    from t assms(2) have "\<not> singular a"
      by (auto simp: singular_def anula_zip)
    moreover from r assms(2) have "map (\<lambda>fila. producto fila x) a = b"
      by (simp add: resuelve_zip)
    ultimately show ?thesis
      using Inr lx by (simp add: s)
  qed
qed

lemma solve_singular:
  assumes "list_all (\<lambda>fila. length fila = length a) a" and "length b = length a"
  shows "(solve a b = Inl SingularSystemError) = singular a"
  using solve_correcto [OF assms] by (cases "solve a b") auto

lemma vector_paso_compartida: "vector_V (paso_compartida i j r st) = vector_V st"
  by (simp add: paso_compartida_def Let_def)

lemma length_vector_paso_malla:
  "length (vector_V (paso_malla f p i st)) = length (vector_V st)"
  by (cases "bucle_propias i 0 (p i) (0, resistencias st)") (simp add: paso_malla_def Let_def)

lemma length_vector_construir: "length (vector_V (construir N f p c)) = N"
  unfolding construir_pares
proof (rule fold_invariante [where P = "\<lambda>st. length (vector_V st) = N"])
  show "length (vector_V (fold (paso_malla f p) [0..<N] (estado_inicial N))) = N"
    by (rule fold_invariante [where P = "\<lambda>st. length (vector_V st) = N"])
       (simp_all add: estado_inicial_def length_vector_paso_malla)
next
  fix x :: "nat \<times> nat" and st :: estado
  assume "length (vector_V st) = N"
  then show "length (vector_V ((case x of (i, j) \<Rightarrow> paso_compartida i j (c i j)) st)) = N"
    by (cases x) (simp add: vector_paso_compartida)
qed

lemma main_singular:
  assumes "0 < N"
  shows "(main N f p c = Inl SistemaIndeterminado) = singular (matriz_R (construir (nat N) f p c))"
proof -
  let ?st = "construir (nat N) f p c"
  have "cuadrada (nat N) (matriz_R ?st)"
    using inv_sim_construir [of "nat N" f p c] by (simp add: inv_sim_def)
  then have a: "list_all (\<lambda>fila. length fila = length (matriz_R ?st)) (matriz_R ?st)"
    and l: "length (matriz_R ?st) = nat N"
    by (simp_all add: cuadrada_def)
  have b: "length (vector_V ?st) = length (matriz_R ?st)"
    by (simp add: l length_vector_construir)
  from solve_correcto [OF a b] assms show ?thesis
    by (cases "solve (matriz_R ?st) (vector_V ?st)")
       (auto simp: main_def Let_def)
qed

text \<open>
  Claim C4. On a square matrix with a right-hand side of the same length, the solve fails
  with \<open>SingularSystemError\<close> exactly when the matrix is singular; it has no other failure
  there, and when it returns, the matrix is not singular and the vector returned solves
  the system. On exact reals there is no rounding, so that a matrix is ill-conditioned
  beyond numeric solvability means that it is singular. A single mesh with zero resistance,
  the system \<open>[[0]]\<close> with any source, fails with \<open>SingularSystemError\<close>, and \<^verbatim>\<open>main\<close> reports
  the indeterminate system (lines 174 to 176) exactly when the matrix it built is singular.
\<close>

theorem solve_fails_exactly_on_singular_matrix:
  assumes "list_all (\<lambda>fila. length fila = length a) a" and "length b = length a"
  shows "(solve a b = Inl SingularSystemError) = singular a
       \<and> (case solve a b of
            Inl e \<Rightarrow> e = SingularSystemError \<and> singular a
          | Inr x \<Rightarrow> \<not> singular a \<and> length x = length a
                      \<and> map (\<lambda>fila. producto fila x) a = b)
       \<and> solve [[0]] [v] = Inl SingularSystemError
       \<and> main 1 fuentes (\<lambda>i. []) compartidas = Inl SistemaIndeterminado
       \<and> (0 < N \<longrightarrow>
            (main N fuentes propias compartidas = Inl SistemaIndeterminado)
            = singular (matriz_R (construir (nat N) fuentes propias compartidas)))"
proof -
  have "solve [[0]] [v] = Inl SingularSystemError"
    by (simp add: solve_def gauss.simps intercambiar_def)
  moreover have "main 1 fuentes (\<lambda>i. []) compartidas = Inl SistemaIndeterminado"
    by (simp add: main_def construir_def estado_inicial_def paso_malla_def mat_set_def
        solve_def gauss.simps intercambiar_def)
  ultimately show ?thesis
    using solve_correcto [OF assms] solve_singular [OF assms] main_singular by simp
qed

theorem solve_fails_exactly_on_singular_matrix_witness:
  "list_all (\<lambda>fila. length fila = length [[0 :: real]]) [[0]]
   \<and> length [5 :: real] = length [[0 :: real]]
   \<and> solve [[0]] [5] = Inl SingularSystemError \<and> singular [[0]]
   \<and> list_all (\<lambda>fila. length fila = length [[3, - 1], [- 1, 4 :: real]]) [[3, - 1], [- 1, 4]]
   \<and> length [10, 0 :: real] = length [[3, - 1], [- 1, 4 :: real]]
   \<and> solve [[3, - 1], [- 1, 4]] [10, 0] = Inr [40 / 11, 10 / 11]
   \<and> \<not> singular [[3, - 1], [- 1, 4]]
   \<and> (0 :: int) < 1
   \<and> main 1 (\<lambda>i. 5) (\<lambda>i. []) (\<lambda>i j. 0) = Inl SistemaIndeterminado
   \<and> singular (matriz_R (construir (nat 1) (\<lambda>i. 5) (\<lambda>i. []) (\<lambda>i j. 0)))"
  using solve_fails_exactly_on_singular_matrix [of "[[0]]" "[5]" 5 "\<lambda>i. 5" "\<lambda>i j. 0" 1 "\<lambda>i. []"]
    solve_fails_exactly_on_singular_matrix [of "[[3, - 1], [- 1, 4]]" "[10, 0]" 5 "\<lambda>i. 5" "\<lambda>i j. 0" 1 "\<lambda>i. []"]
  by (simp add: solve_ej)

end
